theory Spec2Isabelle
  imports Complex_Main
begin

text \<open>
  A backtest of a bull put credit spread on options that expire the day they are
  traded: \<open>bull_spread_strategy.py\<close> (the class \<open>BullPutSpreadStrategy\<close> with
  \<open>add_indicators\<close>, \<open>filter_0dte_options\<close>, \<open>find_bull_put_spread\<close>,
  \<open>calculate_current_value\<close> and \<open>run_backtest\<close>) and the price download of
  \<open>backtest_alpha_vantage.py\<close> (\<open>get_intraday_data\<close>). A data frame is the list of its
  rows, in order; a selection of rows is a \<open>filter\<close>, and \<open>.iloc[0]\<close> its first row.
\<close>

section \<open>Numbers\<close>

text \<open>
  The strategy computes on pandas columns of dtype float64. Quotes, prices, parameters
  and money amounts are modelled as exact rationals (rounding is not modelled); the
  values that a division can make non-finite, namely the indicator columns and the
  profit percentage, are modelled by \<open>npfloat\<close>: a finite rational, an infinity or
  not-a-number. The sign of a zero is not modelled: a zero divisor counts as positive.
\<close>

datatype npfloat = Fin rat | PInf | NInf | NaN

fun np_lt :: "npfloat \<Rightarrow> npfloat \<Rightarrow> bool" where
  "np_lt NaN _ = False"
| "np_lt _ NaN = False"
| "np_lt (Fin x) (Fin y) = (x < y)"
| "np_lt (Fin x) PInf = True"
| "np_lt (Fin x) NInf = False"
| "np_lt PInf _ = False"
| "np_lt NInf NInf = False"
| "np_lt NInf _ = True"

fun np_le :: "npfloat \<Rightarrow> npfloat \<Rightarrow> bool" where
  "np_le NaN _ = False"
| "np_le _ NaN = False"
| "np_le (Fin x) (Fin y) = (x \<le> y)"
| "np_le (Fin x) PInf = True"
| "np_le (Fin x) NInf = False"
| "np_le PInf PInf = True"
| "np_le PInf _ = False"
| "np_le NInf _ = True"

definition np_ge :: "npfloat \<Rightarrow> npfloat \<Rightarrow> bool" where
  "np_ge a b = np_le b a"

fun np_neg :: "npfloat \<Rightarrow> npfloat" where
  "np_neg (Fin x) = Fin (- x)"
| "np_neg PInf = NInf"
| "np_neg NInf = PInf"
| "np_neg NaN = NaN"

fun np_add :: "npfloat \<Rightarrow> npfloat \<Rightarrow> npfloat" where
  "np_add NaN _ = NaN"
| "np_add _ NaN = NaN"
| "np_add (Fin x) (Fin y) = Fin (x + y)"
| "np_add PInf NInf = NaN"
| "np_add NInf PInf = NaN"
| "np_add PInf _ = PInf"
| "np_add _ PInf = PInf"
| "np_add NInf _ = NInf"
| "np_add _ NInf = NInf"

definition np_sub :: "npfloat \<Rightarrow> npfloat \<Rightarrow> npfloat" where
  "np_sub a b = np_add a (np_neg b)"

text \<open>The sign of a value: \<open>1\<close>, \<open>0\<close> or \<open>-1\<close> (\<open>0\<close> also for not-a-number).\<close>

fun np_sgn :: "npfloat \<Rightarrow> int" where
  "np_sgn (Fin x) = (if 0 < x then 1 else if x < 0 then - 1 else 0)"
| "np_sgn PInf = 1"
| "np_sgn NInf = - 1"
| "np_sgn NaN = 0"

definition np_inf :: "int \<Rightarrow> npfloat" where
  "np_inf s = (if 0 < s then PInf else if s < 0 then NInf else NaN)"

fun np_mul :: "npfloat \<Rightarrow> npfloat \<Rightarrow> npfloat" where
  "np_mul NaN _ = NaN"
| "np_mul _ NaN = NaN"
| "np_mul (Fin x) (Fin y) = Fin (x * y)"
| "np_mul a b = np_inf (np_sgn a * np_sgn b)"

fun np_div :: "npfloat \<Rightarrow> npfloat \<Rightarrow> npfloat" where
  "np_div NaN _ = NaN"
| "np_div _ NaN = NaN"
| "np_div (Fin x) (Fin y) = (if y \<noteq> 0 then Fin (x / y) else np_inf (np_sgn (Fin x)))"
| "np_div (Fin x) _ = Fin 0"
| "np_div a (Fin y) = np_inf (np_sgn a * (if y < 0 then - 1 else 1))"
| "np_div _ _ = NaN"

datatype error = IndexError | KeyError | ValueError | OverflowError | ZeroDivisionError
  | TypeError | RequestException | Exception string

text \<open>Python's \<open>int(x)\<close> on a float: truncation towards zero; it raises on an infinity
  (OverflowError) and on not-a-number (ValueError).\<close>

fun py_int :: "npfloat \<Rightarrow> error + int" where
  "py_int (Fin x) = Inr (if 0 \<le> x then \<lfloor>x\<rfloor> else \<lceil>x\<rceil>)"
| "py_int PInf = Inl OverflowError"
| "py_int NInf = Inl OverflowError"
| "py_int NaN = Inl ValueError"

section \<open>Data\<close>

text \<open>
  A date is the proleptic Gregorian ordinal of Python's \<open>datetime\<close> (day 1 is Monday,
  1 January of year 1), the time of day being midnight throughout; adding
  \<open>timedelta(days=1)\<close> adds one.
\<close>

type_synonym date = int

definition weekday :: "date \<Rightarrow> int" where
  "weekday d = (d + 6) mod 7"

text \<open>A row of the price frame as it is given: the columns the strategy reads.\<close>

record price_row =
  date :: date
  close :: rat

text \<open>A row of the price frame after \<open>add_indicators\<close>.\<close>

record bar = price_row +
  rsi :: npfloat
  sma_20 :: npfloat
  sma_50 :: npfloat

text \<open>A row of the options frame; \<open>opt_date\<close> is its column \<open>date\<close>.\<close>

record option_row =
  opt_date :: date
  expiration_date :: date
  option_type :: string
  strike :: rat
  bid :: rat
  ask :: rat
  delta :: rat

record params =
  entry_rsi_threshold :: rat
  profit_target_pct :: rat
  stop_loss_pct :: rat
  width_between_strikes :: rat
  max_position_size :: rat

text \<open>The dictionary returned by \<open>find_bull_put_spread\<close>.\<close>

record candidate =
  c_short_put :: option_row
  c_long_put :: option_row
  c_num_spreads :: int
  c_max_risk :: rat
  c_max_profit :: rat

record position =
  entry_date :: date
  expiry_date :: date
  short_put :: option_row
  long_put :: option_row
  num_spreads :: int
  initial_credit :: rat
  max_risk :: rat

text \<open>An entry of \<open>trade_history\<close>; \<open>t_entry_date\<close> is its key \<open>entry_date\<close>.\<close>

record trade_record =
  t_entry_date :: date
  exit_date :: date
  profit_loss :: rat
  profit_pct :: npfloat

text \<open>An entry of the local list \<open>results\<close>.\<close>

record event =
  ev_date :: date
  ev_account_value :: rat
  action :: string
  trade_details :: position

text \<open>The attributes of a \<open>BullPutSpreadStrategy\<close> object.\<close>

record strategy =
  qqq_data :: "bar list"
  options_data :: "option_row list"
  params :: params
  positions :: "position list"
  trade_history :: "trade_record list"

section \<open>Indicators\<close>

text \<open>\<open>Series.diff()\<close>: the first entry is not-a-number.\<close>

definition diff :: "rat list \<Rightarrow> npfloat list" where
  "diff xs = (case xs of [] \<Rightarrow> [] | _ # ys \<Rightarrow> NaN # map2 (\<lambda>a b. Fin (b - a)) xs ys)"

text \<open>
  \<open>Series.rolling(window=w).mean()\<close>: not-a-number until the window is full or when
  the window holds a not-a-number, else the mean of the last \<open>w\<close> entries.
\<close>

definition window_mean :: "npfloat list \<Rightarrow> npfloat" where
  "window_mean ws =
     (if NaN \<in> set ws then NaN
      else np_div (foldl np_add (Fin 0) ws) (Fin (of_nat (length ws))))"

definition rolling_mean :: "nat \<Rightarrow> npfloat list \<Rightarrow> npfloat list" where
  "rolling_mean w xs =
     map (\<lambda>i. if i + 1 < w then NaN else window_mean (take w (drop (i + 1 - w) xs)))
       [0..<length xs]"

definition add_indicators :: "price_row list \<Rightarrow> bar list" where
  "add_indicators rows =
     (let closes = map close rows;
          delta' = diff closes;
          gain = map (\<lambda>d. if np_lt (Fin 0) d then d else Fin 0) delta';
          loss = map (\<lambda>d. np_neg (if np_lt d (Fin 0) then d else Fin 0)) delta';
          avg_gain = rolling_mean 14 gain;
          avg_loss = rolling_mean 14 loss;
          rs = map2 np_div avg_gain avg_loss;
          rsi_col = map (\<lambda>r. np_sub (Fin 100) (np_div (Fin 100) (np_add (Fin 1) r))) rs;
          sma_20_col = rolling_mean 20 (map Fin closes);
          sma_50_col = rolling_mean 50 (map Fin closes)
      in map (\<lambda>(row, r, s20, s50).
                 \<lparr>date = date row, close = close row, rsi = r, sma_20 = s20, sma_50 = s50\<rparr>)
           (zip rows (zip rsi_col (zip sma_20_col sma_50_col))))"

text \<open>The constructor: it stores its arguments, starts with no position and no trade,
  and annotates the price frame.\<close>

definition init :: "price_row list \<Rightarrow> option_row list \<Rightarrow> params \<Rightarrow> strategy" where
  "init qqq opts ps =
     \<lparr>qqq_data = add_indicators qqq, options_data = opts, params = ps,
      positions = [], trade_history = []\<rparr>"

section \<open>Spread selection and valuation\<close>

definition filter_0dte_options :: "strategy \<Rightarrow> date \<Rightarrow> option_row list" where
  "filter_0dte_options self d =
     (let today_options = filter (\<lambda>q. opt_date q = d) (options_data self);
          expiry_today = filter (\<lambda>q. expiration_date q = d) today_options
      in expiry_today)"

text \<open>
  \<open>.iloc[0]\<close> on an empty selection raises IndexError; every other empty selection is
  tested with \<open>.empty\<close> and gives \<open>None\<close>. The quotient handed to \<open>int\<close> is a numpy
  division, which does not raise on a zero divisor.
\<close>

definition find_bull_put_spread :: "strategy \<Rightarrow> date \<Rightarrow> rat \<Rightarrow> error + candidate option" where
  "find_bull_put_spread self d account_value =
     (case filter (\<lambda>b. date b = d) (qqq_data self) of
        [] \<Rightarrow> Inl IndexError
      | current_data # _ \<Rightarrow>
          (if np_lt (rsi current_data) (Fin (entry_rsi_threshold (params self)))
              \<or> np_lt (sma_20 current_data) (sma_50 current_data)
           then Inr None
           else
             (let todays_options = filter_0dte_options self d in
              if todays_options = [] then Inr None
              else
                (let puts = filter (\<lambda>q. option_type q = ''put'') todays_options;
                     short_put_candidates =
                       filter (\<lambda>q. - (7 / 20) \<le> delta q \<and> delta q \<le> - (1 / 4)) puts
                 in (case short_put_candidates of
                       [] \<Rightarrow> Inr None
                     | short_put' # _ \<Rightarrow>
                         (let short_strike = strike short_put';
                              width = width_between_strikes (params self);
                              long_strike = short_strike - width;
                              long_put_candidates = filter (\<lambda>q. strike q = long_strike) puts
                          in (case long_put_candidates of
                                [] \<Rightarrow> Inr None
                              | long_put' # _ \<Rightarrow>
                                  (let max_risk' = (short_strike - long_strike) * 100
                                                     - (bid short_put' - ask long_put') * 100;
                                       max_position =
                                         account_value * max_position_size (params self)
                                   in (case py_int (np_div (Fin max_position) (Fin max_risk')) of
                                         Inl e \<Rightarrow> Inl e
                                       | Inr num_spreads' \<Rightarrow>
                                           (if num_spreads' = 0 then Inr None
                                            else Inr (Some
                                              \<lparr>c_short_put = short_put', c_long_put = long_put',
                                               c_num_spreads = num_spreads',
                                               c_max_risk = max_risk',
                                               c_max_profit =
                                                 (bid short_put' - ask long_put') * 100
                                                   * of_int num_spreads'\<rparr>)))))))))))"

definition calculate_current_value :: "position \<Rightarrow> option_row list \<Rightarrow> rat option" where
  "calculate_current_value position current_options_data =
     (let short_put_current =
            filter (\<lambda>q. strike q = strike (short_put position) \<and> option_type q = ''put'')
              current_options_data;
          long_put_current =
            filter (\<lambda>q. strike q = strike (long_put position) \<and> option_type q = ''put'')
              current_options_data
      in case (short_put_current, long_put_current) of
           (s # _, l # _) \<Rightarrow>
             Some (initial_credit position
                     - (ask s - bid l) * 100 * of_int (num_spreads position))
         | _ \<Rightarrow> None)"

section \<open>The backtest\<close>

text \<open>
  The state of a run: the strategy object, whose lists \<open>positions\<close> and
  \<open>trade_history\<close> the run mutates, and the local variables \<open>account_value\<close> and
  \<open>results\<close>.
\<close>

record run_state =
  self :: strategy
  account_value :: rat
  results :: "event list"

text \<open>
  The body of the loop over \<open>self.positions\<close>, for one position. \<open>list.remove\<close>
  deletes the first element that is the position or equals it; the model deletes the
  first equal one, which is the same element as long as the list holds no two equal
  positions.
\<close>

definition manage_position :: "date \<Rightarrow> position \<Rightarrow> run_state \<Rightarrow> run_state" where
  "manage_position current_date position st =
     (let current_options = filter_0dte_options (self st) current_date in
      if current_options = [] then st
      else
        (case calculate_current_value position current_options of
           None \<Rightarrow> st
         | Some current_value \<Rightarrow>
             (let profit_pct' = np_div (Fin current_value) (Fin (max_risk position)) in
              if np_ge profit_pct' (Fin (profit_target_pct (params (self st))))
                 \<or> np_le profit_pct' (Fin (- stop_loss_pct (params (self st))))
                 \<or> current_date = expiry_date position
              then
                st\<lparr>account_value := account_value st + current_value,
                   self := (self st)
                     \<lparr>trade_history := trade_history (self st) @
                        [\<lparr>t_entry_date = entry_date position, exit_date = current_date,
                          profit_loss = current_value, profit_pct = profit_pct'\<rparr>],
                      positions := remove1 position (positions (self st))\<rparr>\<rparr>
              else st)))"

text \<open>
  The loop \<open>for position in self.positions\<close>. Python's list iterator keeps an index
  into the list it walks, also when the body removes an element: the next position
  is the one at the next index of the list as it then is.
\<close>

function manage_positions :: "date \<Rightarrow> nat \<Rightarrow> run_state \<Rightarrow> run_state" where
  "manage_positions current_date i st =
     (if i < length (positions (self st))
      then manage_positions current_date (i + 1)
             (manage_position current_date (positions (self st) ! i) st)
      else st)"
  by pat_completeness auto
termination
proof (relation "measure (\<lambda>(d, i, st). length (positions (self st)) - i)")
  show "wf (measure (\<lambda>(d, i, st). length (positions (self st)) - i))" by simp
next
  fix current_date :: date and i :: nat and st :: run_state
  assume "i < length (positions (self st))"
  moreover have "length (positions (self (manage_position current_date (positions (self st) ! i) st)))
      \<le> length (positions (self st))"
    by (simp add: manage_position_def Let_def length_remove1 split: option.splits)
  ultimately show "((current_date, i + 1, manage_position current_date (positions (self st) ! i) st),
      (current_date, i, st)) \<in> measure (\<lambda>(d, i, st). length (positions (self st)) - i)"
    by simp
qed

declare manage_positions.simps [simp del]

text \<open>One pass through the body of the \<open>while\<close> loop, at \<open>current_date\<close>.\<close>

definition day_step :: "date \<Rightarrow> run_state \<Rightarrow> error + run_state" where
  "day_step current_date st =
     (if weekday current_date \<ge> 5 then Inr st
      else if filter (\<lambda>b. date b = current_date) (qqq_data (self st)) = [] then Inr st
      else
        (let st1 = manage_positions current_date 0 st in
         if positions (self st1) = [] then
           (case find_bull_put_spread (self st1) current_date (account_value st1) of
              Inl e \<Rightarrow> Inl e
            | Inr None \<Rightarrow> Inr st1
            | Inr (Some trade) \<Rightarrow>
                (let initial_credit' =
                       (bid (c_short_put trade) - ask (c_long_put trade)) * 100
                         * of_int (c_num_spreads trade);
                     position =
                       \<lparr>entry_date = current_date, expiry_date = current_date,
                        short_put = c_short_put trade, long_put = c_long_put trade,
                        num_spreads = c_num_spreads trade,
                        initial_credit = initial_credit', max_risk = c_max_risk trade\<rparr>
                 in Inr (st1
                      \<lparr>self := (self st1)\<lparr>positions := positions (self st1) @ [position]\<rparr>,
                       results := results st1 @
                         [\<lparr>ev_date = current_date, ev_account_value = account_value st1,
                           action = ''ENTRY'', trade_details = position\<rparr>]\<rparr>)))
         else Inr st1))"

text \<open>The position that the entry step of \<open>day_step\<close> builds from a candidate.\<close>

definition open_position :: "date \<Rightarrow> candidate \<Rightarrow> position" where
  "open_position d trade =
     \<lparr>entry_date = d, expiry_date = d,
      short_put = c_short_put trade, long_put = c_long_put trade,
      num_spreads = c_num_spreads trade,
      initial_credit = (bid (c_short_put trade) - ask (c_long_put trade)) * 100
                         * of_int (c_num_spreads trade),
      max_risk = c_max_risk trade\<rparr>"

text \<open>The \<open>while current_date <= end_date\<close> loop; an exception ends the run.\<close>

function run_backtest_loop :: "date \<Rightarrow> date \<Rightarrow> run_state \<Rightarrow> error + run_state" where
  "run_backtest_loop current_date end_date st =
     (if current_date \<le> end_date
      then (case day_step current_date st of
              Inl e \<Rightarrow> Inl e
            | Inr st' \<Rightarrow> run_backtest_loop (current_date + 1) end_date st')
      else Inr st)"
  by pat_completeness auto
termination
  by (relation "measure (\<lambda>(c, e, st). nat (e + 1 - c))") auto

declare run_backtest_loop.simps [simp del]

record performance =
  total_return :: npfloat
  win_rate :: rat
  average_return :: npfloat
  total_trades :: nat

record backtest_result =
  r_results :: "event list"
  r_trade_history :: "trade_record list"
  r_performance :: performance
  final_account :: rat

text \<open>\<open>np.mean\<close> of a list of float64 values.\<close>

definition np_mean :: "npfloat list \<Rightarrow> npfloat" where
  "np_mean xs = np_div (foldl np_add (Fin 0) xs) (Fin (of_nat (length xs)))"

text \<open>
  \<open>run_backtest\<close> returns its dictionary and leaves the strategy object changed; the
  model returns both. \<open>account_value\<close> is the Python number \<open>initial_capital\<close> until
  the first close of the run adds a float64 to it, so the quotient
  \<open>account_value / initial_capital\<close> raises ZeroDivisionError only when the capital
  is zero and the run closed no position; otherwise it is a numpy division.
\<close>

definition run_backtest ::
  "strategy \<Rightarrow> date \<Rightarrow> date \<Rightarrow> rat \<Rightarrow> error + (backtest_result \<times> strategy)" where
  "run_backtest self0 start_date end_date initial_capital =
     (case run_backtest_loop start_date end_date
             \<lparr>self = self0, account_value = initial_capital, results = []\<rparr> of
        Inl e \<Rightarrow> Inl e
      | Inr st \<Rightarrow>
          (let history = trade_history (self st) in
           if history \<noteq> [] then
             (let win_trades = length (filter (\<lambda>t. profit_loss t > 0) history);
                  total_trades' = length history;
                  win_rate' = (if total_trades' > 0
                               then of_nat win_trades / of_nat total_trades' else 0);
                  avg_return = (if history \<noteq> [] then np_mean (map profit_pct history)
                                else Fin 0)
              in if initial_capital = 0 \<and> length history = length (trade_history self0)
                 then Inl ZeroDivisionError
                 else Inr
                   (\<lparr>r_results = results st, r_trade_history = history,
                     r_performance =
                       \<lparr>total_return =
                          np_mul (np_sub (np_div (Fin (account_value st)) (Fin initial_capital))
                                    (Fin 1)) (Fin 100),
                        win_rate = win_rate' * 100,
                        average_return = np_mul avg_return (Fin 100),
                        total_trades = total_trades'\<rparr>,
                     final_account = account_value st\<rparr>, self st))
           else Inr
             (\<lparr>r_results = results st, r_trade_history = history,
               r_performance =
                 \<lparr>total_return = Fin 0, win_rate = 0, average_return = Fin 0,
                  total_trades = 0\<rparr>,
               final_account = account_value st\<rparr>, self st)))"

text \<open>
  The records \<open>new\<close> are records of closes of positions among \<open>ps\<close>: each carries the
  entry date of such a position, and its profit or loss is the value that
  \<open>calculate_current_value\<close> gives that position on the record's exit date.
\<close>

definition records_of_closes :: "strategy \<Rightarrow> position set \<Rightarrow> trade_record list \<Rightarrow> bool" where
  "records_of_closes s ps new =
     (\<forall>r \<in> set new. \<exists>p \<in> ps. t_entry_date r = entry_date p \<and>
        calculate_current_value p (filter_0dte_options s (exit_date r)) = Some (profit_loss r))"

text \<open>A run state whose strategy object already holds the trade records \<open>h\<close>.\<close>

definition prepend_history :: "trade_record list \<Rightarrow> run_state \<Rightarrow> run_state" where
  "prepend_history h st = st\<lparr>self := (self st)\<lparr>trade_history := h @ trade_history (self st)\<rparr>\<rparr>"

section \<open>Fetching intraday prices\<close>

text \<open>
  The decoded body of an HTTP response, as \<open>response.json()\<close> returns it. An object
  keeps its members in order; \<open>json.loads\<close> lets the last of several equal keys win.
\<close>

datatype json_value = JNull | JBool bool | JNum rat | JStr string
  | JArr "json_value list" | JObj "(string \<times> json_value) list"

text \<open>What \<open>requests.get\<close> returns: the status code and the outcome of \<open>.json()\<close>,
  which raises when the body is not JSON.\<close>

record response =
  status_code :: int
  json :: "error + json_value"

fun starts_with :: "string \<Rightarrow> string \<Rightarrow> bool" where
  "starts_with [] ys = True"
| "starts_with (x # xs) [] = False"
| "starts_with (x # xs) (y # ys) = (x = y \<and> starts_with xs ys)"

fun substring_of :: "string \<Rightarrow> string \<Rightarrow> bool" where
  "substring_of xs [] = (xs = [])"
| "substring_of xs (y # ys) = (starts_with xs (y # ys) \<or> substring_of xs ys)"

text \<open>
  Python's \<open>key in data\<close> for a string \<open>key\<close>: a key of a dictionary, an element of a
  list, a substring of a string; any other decoded value is not iterable.
\<close>

fun py_in :: "string \<Rightarrow> json_value \<Rightarrow> error + bool" where
  "py_in k (JObj kvs) = Inr (k \<in> set (map fst kvs))"
| "py_in k (JArr xs) = Inr (JStr k \<in> set xs)"
| "py_in k (JStr s) = Inr (substring_of k s)"
| "py_in k _ = Inl TypeError"

text \<open>Python's \<open>data[key]\<close> for a string \<open>key\<close>.\<close>

fun py_getitem :: "json_value \<Rightarrow> string \<Rightarrow> error + json_value" where
  "py_getitem (JObj kvs) k = (case map_of (rev kvs) k of None \<Rightarrow> Inl KeyError | Some v \<Rightarrow> Inr v)"
| "py_getitem _ k = Inl TypeError"

text \<open>
  \<open>get_intraday_data\<close>. The network is the parameter \<open>http_get\<close>, from the URL and
  the query parameters to the response or the exception \<open>requests.get\<close> raises. The
  pandas conversion of the extracted time series into the returned frame (renaming
  the columns, converting the values, adding the symbol, parsing and sorting the
  timestamps) is the parameter \<open>to_frame\<close>, which may raise as well. An
  \<open>Exception\<close> carries the fixed part of its message. Printing is not modelled.
\<close>

definition get_intraday_data ::
  "(string \<Rightarrow> (string \<times> string) list \<Rightarrow> error + response) \<Rightarrow>
   (json_value \<Rightarrow> string \<Rightarrow> error + 'df) \<Rightarrow>
   string \<Rightarrow> string \<Rightarrow> string option \<Rightarrow> string \<Rightarrow> error + 'df" where
  "get_intraday_data http_get to_frame symbol interval api_key output_size =
     (case api_key of
        None \<Rightarrow> Inl ValueError
      | Some key \<Rightarrow>
          (let base_url = ''https://www.alphavantage.co/query'';
               query = [(''function'', ''TIME_SERIES_INTRADAY''), (''symbol'', symbol),
                        (''interval'', interval), (''apikey'', key),
                        (''outputsize'', output_size), (''datatype'', ''json'')]
           in case http_get base_url query of
                Inl e \<Rightarrow> Inl e
              | Inr resp \<Rightarrow>
                  if status_code resp \<noteq> 200
                  then Inl (Exception ''API request failed with status code'')
                  else
                    (case json resp of
                       Inl e \<Rightarrow> Inl e
                     | Inr data \<Rightarrow>
                         (case py_in ''Error Message'' data of
                            Inl e \<Rightarrow> Inl e
                          | Inr True \<Rightarrow> Inl (Exception ''API returned an error'')
                          | Inr False \<Rightarrow>
                              (let time_series_key = ''Time Series ('' @ interval @ '')'' in
                               case py_in time_series_key data of
                                 Inl e \<Rightarrow> Inl e
                               | Inr False \<Rightarrow> Inl (Exception ''Expected key not found in response'')
                               | Inr True \<Rightarrow>
                                   (case py_getitem data time_series_key of
                                      Inl e \<Rightarrow> Inl e
                                    | Inr time_series \<Rightarrow> to_frame time_series symbol))))))"

section \<open>Example data\<close>

text \<open>The parameters of the example at the end of the source file.\<close>

definition strategy_params :: params where
  "strategy_params =
     \<lparr>entry_rsi_threshold = 40, profit_target_pct = 1 / 2, stop_loss_pct = 3 / 2,
      width_between_strikes = 5, max_position_size = 1 / 20\<rparr>"

text \<open>
  Sixty-six trading days from Monday 2 January 2023 (ordinal 738522), five a week.
  The close rises by one a day with a dip every fourth day, then stays at 349 from
  the 52nd day on.
\<close>

definition trading_day :: "nat \<Rightarrow> date" where
  "trading_day k = 738522 + 7 * int (k div 5) + int (k mod 5)"

definition prices :: "price_row list" where
  "prices =
     map (\<lambda>k. \<lparr>date = trading_day k,
                close = (if k < 51 then 300 + of_nat k - (if k mod 4 = 3 then 2 else 0)
                         else 349)\<rparr>)
       [0..<66]"

definition put_row :: "date \<Rightarrow> rat \<Rightarrow> rat \<Rightarrow> rat \<Rightarrow> rat \<Rightarrow> option_row" where
  "put_row d k b a dl =
     \<lparr>opt_date = d, expiration_date = d, option_type = ''put'',
      strike = k, bid = b, ask = a, delta = dl\<rparr>"

text \<open>
  Same-day puts at the strikes 350 and 345 on the first day, on 13 to 16 March 2023
  (ordinals 738592 to 738595, the 51st to 54th day; the 345 put is missing on the
  15th) and on 3 April 2023 (ordinal 738613, the last day), and a call.
\<close>

definition chain :: "option_row list" where
  "chain =
     [put_row 738522 350 (6 / 5) (13 / 10) (- (3 / 10)),
      put_row 738522 345 (7 / 20) (2 / 5) (- (3 / 20)),
      \<lparr>opt_date = 738592, expiration_date = 738592, option_type = ''call'',
       strike = 350, bid = 2, ask = 21 / 10, delta = 1 / 2\<rparr>,
      put_row 738592 350 (6 / 5) (13 / 10) (- (3 / 10)),
      put_row 738592 345 (7 / 20) (2 / 5) (- (3 / 20)),
      put_row 738593 350 (7 / 5) (3 / 2) (- (7 / 20)),
      put_row 738593 345 (1 / 2) (11 / 20) (- (1 / 5)),
      put_row 738594 350 1 (11 / 10) (- (7 / 25)),
      put_row 738595 350 (1 / 4) (3 / 10) (- (1 / 10)),
      put_row 738595 345 (1 / 10) (3 / 20) (- (1 / 20)),
      put_row 738613 350 (6 / 5) (13 / 10) (- (3 / 10)),
      put_row 738613 345 (7 / 20) (2 / 5) (- (3 / 20))]"



text \<open>Two responses of the price service with the status 200: an error payload, and
  a payload with the time series of the interval \<open>1min\<close>.\<close>

definition error_response :: response where
  "error_response =
     \<lparr>status_code = 200,
      json = Inr (JObj [(''Error Message'', JStr ''Invalid API call.'')])\<rparr>"

definition good_response :: response where
  "good_response =
     \<lparr>status_code = 200,
      json = Inr (JObj [(''Meta Data'', JObj [(''2. Symbol'', JStr ''QQQ'')]),
                        (''Time Series (1min)'',
                         JObj [(''2023-03-13 09:30:00'', JObj [(''4. close'', JStr ''350.0'')])])])\<rparr>"

text \<open>The strategy object built from the example data, the position it opens on
  13 March 2023 with a capital of 100000, and the event it logs for that.\<close>

definition example :: strategy where
  "example = init prices chain strategy_params"

definition example_position :: position where
  "example_position =
     \<lparr>entry_date = 738592, expiry_date = 738592,
      short_put = put_row 738592 350 (6 / 5) (13 / 10) (- (3 / 10)),
      long_put = put_row 738592 345 (7 / 20) (2 / 5) (- (3 / 20)),
      num_spreads = 11, initial_credit = 880, max_risk = 420\<rparr>"

definition example_entry :: event where
  "example_entry =
     \<lparr>ev_date = 738592, ev_account_value = 100000, action = ''ENTRY'',
      trade_details = example_position\<rparr>"

definition example_trade :: trade_record where
  "example_trade =
     \<lparr>t_entry_date = 738592, exit_date = 738595, profit_loss = 660, profit_pct = Fin (11 / 7)\<rparr>"

text \<open>The performance summary of the example run, for \<open>n\<close> records of the same trade.\<close>

definition example_performance :: "nat \<Rightarrow> performance" where
  "example_performance n =
     \<lparr>total_return = Fin (33 / 50), win_rate = 100, average_return = Fin (1100 / 7),
      total_trades = n\<rparr>"

section \<open>The management loop\<close>

lemma manage_position_cases:
  "manage_position d p st = st \<or>
   (\<exists>cv pct. calculate_current_value p (filter_0dte_options (self st) d) = Some cv \<and>
      manage_position d p st =
      st\<lparr>account_value := account_value st + cv,
         self := (self st)
           \<lparr>trade_history := trade_history (self st) @
              [\<lparr>t_entry_date = entry_date p, exit_date = d, profit_loss = cv, profit_pct = pct\<rparr>],
            positions := remove1 p (positions (self st))\<rparr>\<rparr>)"
proof (cases "filter_0dte_options (self st) d = []")
  case True
  then show ?thesis by (simp add: manage_position_def)
next
  case False
  show ?thesis
  proof (cases "calculate_current_value p (filter_0dte_options (self st) d)")
    case None
    with False show ?thesis by (simp add: manage_position_def)
  next
    case (Some cv)
    let ?pct = "np_div (Fin cv) (Fin (max_risk p))"
    show ?thesis
    proof (cases "np_ge ?pct (Fin (profit_target_pct (params (self st))))
        \<or> np_le ?pct (Fin (- stop_loss_pct (params (self st)))) \<or> d = expiry_date p")
      case True
      have "manage_position d p st =
        st\<lparr>account_value := account_value st + cv,
           self := (self st)
             \<lparr>trade_history := trade_history (self st) @
                [\<lparr>t_entry_date = entry_date p, exit_date = d, profit_loss = cv, profit_pct = ?pct\<rparr>],
              positions := remove1 p (positions (self st))\<rparr>\<rparr>"
        using False Some True by (simp only: manage_position_def Let_def option.case if_True if_False)
      with Some show ?thesis by blast
    next
      case False
      then have "manage_position d p st = st"
        using \<open>filter_0dte_options (self st) d \<noteq> []\<close> Some
        by (simp only: manage_position_def Let_def option.case if_True if_False)
      then show ?thesis by simp
    qed
  qed
qed

lemma manage_position_length:
  "length (positions (self (manage_position d p st))) \<le> length (positions (self st))"
proof -
  from manage_position_cases [of d p st] show ?thesis
  proof (elim disjE exE conjE)
    assume "manage_position d p st = st"
    then show ?thesis by simp
  next
    fix cv pct
    assume e: "manage_position d p st =
      st\<lparr>account_value := account_value st + cv,
         self := (self st)
           \<lparr>trade_history := trade_history (self st) @
              [\<lparr>t_entry_date = entry_date p, exit_date = d, profit_loss = cv, profit_pct = pct\<rparr>],
            positions := remove1 p (positions (self st))\<rparr>\<rparr>"
    show ?thesis by (simp add: e length_remove1)
  qed
qed

lemma manage_position_static:
  "qqq_data (self (manage_position d p st)) = qqq_data (self st) \<and>
   options_data (self (manage_position d p st)) = options_data (self st) \<and>
   params (self (manage_position d p st)) = params (self st) \<and>
   results (manage_position d p st) = results st"
proof -
  from manage_position_cases [of d p st] show ?thesis
  proof (elim disjE exE conjE)
    assume "manage_position d p st = st"
    then show ?thesis by simp
  next
    fix cv pct
    assume e: "manage_position d p st =
      st\<lparr>account_value := account_value st + cv,
         self := (self st)
           \<lparr>trade_history := trade_history (self st) @
              [\<lparr>t_entry_date = entry_date p, exit_date = d, profit_loss = cv, profit_pct = pct\<rparr>],
            positions := remove1 p (positions (self st))\<rparr>\<rparr>"
    show ?thesis by (simp add: e)
  qed
qed

lemma filter_0dte_options_static:
  "options_data s = options_data s' \<Longrightarrow> filter_0dte_options s d = filter_0dte_options s' d"
  by (simp add: filter_0dte_options_def)

lemma records_of_closes_static:
  "options_data s = options_data s' \<Longrightarrow> records_of_closes s ps new = records_of_closes s' ps new"
  by (simp add: records_of_closes_def filter_0dte_options_static [of s s'])

lemma records_of_closes_mono:
  "records_of_closes s ps new \<Longrightarrow> ps \<subseteq> qs \<Longrightarrow> records_of_closes s qs new"
  unfolding records_of_closes_def by blast

lemma records_of_closes_append:
  "records_of_closes s ps new1 \<Longrightarrow> records_of_closes s ps new2 \<Longrightarrow>
   records_of_closes s ps (new1 @ new2)"
  by (auto simp: records_of_closes_def)

lemma records_of_closes_Nil: "records_of_closes s ps []"
  by (simp add: records_of_closes_def)

lemma manage_position_closes:
  "\<exists>new. trade_history (self (manage_position d p st)) = trade_history (self st) @ new
     \<and> account_value (manage_position d p st) = account_value st + sum_list (map profit_loss new)
     \<and> records_of_closes (self st) {p} new"
proof -
  from manage_position_cases [of d p st] show ?thesis
  proof (elim disjE exE conjE)
    assume "manage_position d p st = st"
    then have "trade_history (self (manage_position d p st)) = trade_history (self st) @ []
      \<and> account_value (manage_position d p st) = account_value st + sum_list (map profit_loss [])
      \<and> records_of_closes (self st) {p} []"
      by (simp add: records_of_closes_Nil)
    then show ?thesis by (rule exI)
  next
    fix cv pct
    assume c: "calculate_current_value p (filter_0dte_options (self st) d) = Some cv"
      and e: "manage_position d p st =
      st\<lparr>account_value := account_value st + cv,
         self := (self st)
           \<lparr>trade_history := trade_history (self st) @
              [\<lparr>t_entry_date = entry_date p, exit_date = d, profit_loss = cv, profit_pct = pct\<rparr>],
            positions := remove1 p (positions (self st))\<rparr>\<rparr>"
    let ?r = "\<lparr>t_entry_date = entry_date p, exit_date = d, profit_loss = cv, profit_pct = pct\<rparr>"
    have "records_of_closes (self st) {p} [?r]"
      using c by (simp add: records_of_closes_def)
    then have "trade_history (self (manage_position d p st)) = trade_history (self st) @ [?r]
      \<and> account_value (manage_position d p st) = account_value st + sum_list (map profit_loss [?r])
      \<and> records_of_closes (self st) {p} [?r]"
      by (simp add: e)
    then show ?thesis by (rule exI)
  qed
qed

lemma manage_position_subset:
  "set (positions (self (manage_position d p st))) \<subseteq> set (positions (self st))"
proof -
  from manage_position_cases [of d p st] show ?thesis
  proof (elim disjE exE conjE)
    assume "manage_position d p st = st"
    then show ?thesis by simp
  next
    fix cv pct
    assume e: "manage_position d p st =
      st\<lparr>account_value := account_value st + cv,
         self := (self st)
           \<lparr>trade_history := trade_history (self st) @
              [\<lparr>t_entry_date = entry_date p, exit_date = d, profit_loss = cv, profit_pct = pct\<rparr>],
            positions := remove1 p (positions (self st))\<rparr>\<rparr>"
    show ?thesis using set_remove1_subset [of p "positions (self st)"] by (simp add: e)
  qed
qed

lemma manage_positions_unfold:
  "i < length (positions (self st)) \<Longrightarrow>
   manage_positions d i st = manage_positions d (i + 1) (manage_position d (positions (self st) ! i) st)"
  by (subst manage_positions.simps) simp

lemma manage_positions_done:
  "\<not> i < length (positions (self st)) \<Longrightarrow> manage_positions d i st = st"
  by (subst manage_positions.simps) simp

lemma manage_positions_length:
  "length (positions (self (manage_positions d i st))) \<le> length (positions (self st))"
proof (induction d i st rule: manage_positions.induct)
  case (1 d i st)
  show ?case
  proof (cases "i < length (positions (self st))")
    case True
    have "length (positions (self (manage_positions d (i + 1) (manage_position d (positions (self st) ! i) st))))
        \<le> length (positions (self (manage_position d (positions (self st) ! i) st)))"
      using "1.IH" [OF True] .
    also have "\<dots> \<le> length (positions (self st))" by (rule manage_position_length)
    finally show ?thesis by (simp add: manage_positions_unfold [OF True])
  next
    case False
    then show ?thesis by (simp add: manage_positions_done)
  qed
qed

lemma manage_positions_static:
  "qqq_data (self (manage_positions d i st)) = qqq_data (self st) \<and>
   options_data (self (manage_positions d i st)) = options_data (self st) \<and>
   params (self (manage_positions d i st)) = params (self st) \<and>
   results (manage_positions d i st) = results st"
proof (induction d i st rule: manage_positions.induct)
  case (1 d i st)
  show ?case
  proof (cases "i < length (positions (self st))")
    case True
    show ?thesis
      using "1.IH" [OF True] manage_position_static [of d "positions (self st) ! i" st]
      by (simp add: manage_positions_unfold [OF True])
  next
    case False
    then show ?thesis by (simp add: manage_positions_done)
  qed
qed

lemma manage_positions_subset:
  "set (positions (self (manage_positions d i st))) \<subseteq> set (positions (self st))"
proof (induction d i st rule: manage_positions.induct)
  case (1 d i st)
  show ?case
  proof (cases "i < length (positions (self st))")
    case True
    have "set (positions (self (manage_positions d (i + 1) (manage_position d (positions (self st) ! i) st))))
        \<subseteq> set (positions (self (manage_position d (positions (self st) ! i) st)))"
      using "1.IH" [OF True] .
    also have "\<dots> \<subseteq> set (positions (self st))" by (rule manage_position_subset)
    finally show ?thesis by (simp add: manage_positions_unfold [OF True])
  next
    case False
    then show ?thesis by (simp add: manage_positions_done)
  qed
qed

lemma manage_positions_closes:
  "\<exists>new. trade_history (self (manage_positions d i st)) = trade_history (self st) @ new
     \<and> account_value (manage_positions d i st) = account_value st + sum_list (map profit_loss new)
     \<and> records_of_closes (self st) (set (positions (self st))) new"
proof (induction d i st rule: manage_positions.induct)
  case (1 d i st)
  show ?case
  proof (cases "i < length (positions (self st))")
    case True
    define st1 where "st1 = manage_position d (positions (self st) ! i) st"
    from manage_position_closes [of d "positions (self st) ! i" st]
    obtain new1 where n1: "trade_history (self st1) = trade_history (self st) @ new1"
      and a1: "account_value st1 = account_value st + sum_list (map profit_loss new1)"
      and c1: "records_of_closes (self st) {positions (self st) ! i} new1"
      unfolding st1_def by (elim exE conjE)
    from "1.IH" [OF True]
    obtain new2 where n2:
      "trade_history (self (manage_positions d (i + 1) st1)) = trade_history (self st1) @ new2"
      and a2: "account_value (manage_positions d (i + 1) st1) = account_value st1 + sum_list (map profit_loss new2)"
      and c2: "records_of_closes (self st1) (set (positions (self st1))) new2"
      unfolding st1_def by (elim exE conjE)
    have "{positions (self st) ! i} \<subseteq> set (positions (self st))"
      using True by simp
    with c1 have c1': "records_of_closes (self st) (set (positions (self st))) new1"
      by (rule records_of_closes_mono)
    have "options_data (self st1) = options_data (self st)"
      unfolding st1_def using manage_position_static by blast
    then have "records_of_closes (self st) (set (positions (self st1))) new2"
      using c2 records_of_closes_static by blast
    moreover have "set (positions (self st1)) \<subseteq> set (positions (self st))"
      unfolding st1_def by (rule manage_position_subset)
    ultimately have c2': "records_of_closes (self st) (set (positions (self st))) new2"
      by (rule records_of_closes_mono)
    have eq: "manage_positions d i st = manage_positions d (i + 1) st1"
      unfolding st1_def by (rule manage_positions_unfold [OF True])
    have "trade_history (self (manage_positions d i st)) = trade_history (self st) @ (new1 @ new2)"
      by (simp only: eq n2 n1 append_assoc)
    moreover have "account_value (manage_positions d i st)
        = account_value st + sum_list (map profit_loss (new1 @ new2))"
      by (simp only: eq a2 a1 map_append sum_list_append add.assoc)
    moreover have "records_of_closes (self st) (set (positions (self st))) (new1 @ new2)"
      using c1' c2' by (rule records_of_closes_append)
    ultimately show ?thesis by blast
  next
    case False
    then have "manage_positions d i st = st" by (rule manage_positions_done)
    then have "trade_history (self (manage_positions d i st)) = trade_history (self st) @ []
      \<and> account_value (manage_positions d i st) = account_value st + sum_list (map profit_loss [])
      \<and> records_of_closes (self st) (set (positions (self st))) []"
      by (simp add: records_of_closes_Nil)
    then show ?thesis by (rule exI)
  qed
qed

section \<open>One day and the whole run\<close>

lemma day_step_cases:
  assumes "day_step d st = Inr st'"
  shows "st' = st \<or> st' = manage_positions d 0 st \<or>
    (positions (self (manage_positions d 0 st)) = [] \<and>
     (\<exists>trade. find_bull_put_spread (self (manage_positions d 0 st)) d
                 (account_value (manage_positions d 0 st)) = Inr (Some trade) \<and>
        st' = (manage_positions d 0 st)
          \<lparr>self := (self (manage_positions d 0 st))\<lparr>positions := [open_position d trade]\<rparr>,
           results := results (manage_positions d 0 st) @
             [\<lparr>ev_date = d, ev_account_value = account_value (manage_positions d 0 st),
               action = ''ENTRY'', trade_details = open_position d trade\<rparr>]\<rparr>))"
proof -
  define st1 where "st1 = manage_positions d 0 st"
  show ?thesis
  proof (cases "weekday d \<ge> 5 \<or> filter (\<lambda>b. date b = d) (qqq_data (self st)) = []")
    case True
    then have "day_step d st = Inr st" by (auto simp: day_step_def)
    with assms show ?thesis by simp
  next
    case False
    show ?thesis
    proof (cases "positions (self st1) = []")
      case nonempty: False
      then have "day_step d st = Inr st1"
        using False by (simp add: day_step_def st1_def Let_def)
      with assms show ?thesis by (simp add: st1_def)
    next
      case empty: True
      show ?thesis
      proof (cases "find_bull_put_spread (self st1) d (account_value st1)")
        case (Inl e)
        then have "day_step d st = Inl e"
          using False empty by (simp add: day_step_def st1_def Let_def)
        with assms show ?thesis by simp
      next
        case (Inr r)
        show ?thesis
        proof (cases r)
          case None
          then have "day_step d st = Inr st1"
            using False empty Inr by (simp add: day_step_def st1_def Let_def)
          with assms show ?thesis by (simp add: st1_def)
        next
          case (Some trade)
          then have "day_step d st = Inr (st1
              \<lparr>self := (self st1)\<lparr>positions := [open_position d trade]\<rparr>,
               results := results st1 @
                 [\<lparr>ev_date = d, ev_account_value = account_value st1,
                   action = ''ENTRY'', trade_details = open_position d trade\<rparr>]\<rparr>)"
            using False empty Inr
            by (simp add: day_step_def st1_def [symmetric] Let_def open_position_def)
          with assms have "st' = st1
              \<lparr>self := (self st1)\<lparr>positions := [open_position d trade]\<rparr>,
               results := results st1 @
                 [\<lparr>ev_date = d, ev_account_value = account_value st1,
                   action = ''ENTRY'', trade_details = open_position d trade\<rparr>]\<rparr>"
            by simp
          moreover have "find_bull_put_spread (self st1) d (account_value st1) = Inr (Some trade)"
            using Inr Some by simp
          ultimately show ?thesis
            using empty unfolding st1_def by (intro disjI2 conjI exI [of _ trade])
        qed
      qed
    qed
  qed
qed

lemma day_step_length:
  assumes "day_step d st = Inr st'" and "length (positions (self st)) \<le> 1"
  shows "length (positions (self st')) \<le> 1"
proof -
  have m: "length (positions (self (manage_positions d 0 st))) \<le> 1"
    using manage_positions_length [of d 0 st] assms(2) by simp
  from day_step_cases [OF assms(1)] show ?thesis
  proof (elim disjE conjE exE)
    assume "st' = st"
    with assms(2) show ?thesis by simp
  next
    assume "st' = manage_positions d 0 st"
    with m show ?thesis by simp
  next
    fix trade
    assume "st' = (manage_positions d 0 st)
          \<lparr>self := (self (manage_positions d 0 st))\<lparr>positions := [open_position d trade]\<rparr>,
           results := results (manage_positions d 0 st) @
             [\<lparr>ev_date = d, ev_account_value = account_value (manage_positions d 0 st),
               action = ''ENTRY'', trade_details = open_position d trade\<rparr>]\<rparr>"
    then show ?thesis by simp
  qed
qed

lemma day_step_static:
  assumes "day_step d st = Inr st'"
  shows "qqq_data (self st') = qqq_data (self st) \<and>
   options_data (self st') = options_data (self st) \<and>
   params (self st') = params (self st)"
proof -
  from day_step_cases [OF assms] show ?thesis
  proof (elim disjE conjE exE)
    assume "st' = st"
    then show ?thesis by simp
  next
    assume "st' = manage_positions d 0 st"
    then show ?thesis using manage_positions_static [of d 0 st] by simp
  next
    fix trade
    assume "st' = (manage_positions d 0 st)
          \<lparr>self := (self (manage_positions d 0 st))\<lparr>positions := [open_position d trade]\<rparr>,
           results := results (manage_positions d 0 st) @
             [\<lparr>ev_date = d, ev_account_value = account_value (manage_positions d 0 st),
               action = ''ENTRY'', trade_details = open_position d trade\<rparr>]\<rparr>"
    then show ?thesis using manage_positions_static [of d 0 st] by simp
  qed
qed

lemma day_step_closes:
  assumes "day_step d st = Inr st'"
  shows "\<exists>new evs. trade_history (self st') = trade_history (self st) @ new
     \<and> results st' = results st @ evs
     \<and> account_value st' = account_value st + sum_list (map profit_loss new)
     \<and> records_of_closes (self st) (set (positions (self st))) new
     \<and> set (positions (self st')) \<subseteq> set (positions (self st)) \<union> set (map trade_details evs)"
proof -
  from manage_positions_closes [of d 0 st]
  obtain new where n: "trade_history (self (manage_positions d 0 st)) = trade_history (self st) @ new"
    and a: "account_value (manage_positions d 0 st) = account_value st + sum_list (map profit_loss new)"
    and c: "records_of_closes (self st) (set (positions (self st))) new"
    by (elim exE conjE)
  have sub: "set (positions (self (manage_positions d 0 st))) \<subseteq> set (positions (self st))"
    by (rule manage_positions_subset)
  have res: "results (manage_positions d 0 st) = results st"
    using manage_positions_static [of d 0 st] by simp
  from day_step_cases [OF assms] show ?thesis
  proof (elim disjE conjE exE)
    assume "st' = st"
    then have "trade_history (self st') = trade_history (self st) @ []
      \<and> results st' = results st @ []
      \<and> account_value st' = account_value st + sum_list (map profit_loss [])
      \<and> records_of_closes (self st) (set (positions (self st))) []
      \<and> set (positions (self st')) \<subseteq> set (positions (self st)) \<union> set (map trade_details [])"
      by (simp add: records_of_closes_Nil)
    then show ?thesis by blast
  next
    assume "st' = manage_positions d 0 st"
    then have "trade_history (self st') = trade_history (self st) @ new
      \<and> results st' = results st @ []
      \<and> account_value st' = account_value st + sum_list (map profit_loss new)
      \<and> records_of_closes (self st) (set (positions (self st))) new
      \<and> set (positions (self st')) \<subseteq> set (positions (self st)) \<union> set (map trade_details [])"
      using n a c sub res by simp
    then show ?thesis by blast
  next
    fix trade
    assume "st' = (manage_positions d 0 st)
          \<lparr>self := (self (manage_positions d 0 st))\<lparr>positions := [open_position d trade]\<rparr>,
           results := results (manage_positions d 0 st) @
             [\<lparr>ev_date = d, ev_account_value = account_value (manage_positions d 0 st),
               action = ''ENTRY'', trade_details = open_position d trade\<rparr>]\<rparr>"
    then have "trade_history (self st') = trade_history (self st) @ new
      \<and> results st' = results st @
           [\<lparr>ev_date = d, ev_account_value = account_value (manage_positions d 0 st),
               action = ''ENTRY'', trade_details = open_position d trade\<rparr>]
      \<and> account_value st' = account_value st + sum_list (map profit_loss new)
      \<and> records_of_closes (self st) (set (positions (self st))) new
      \<and> set (positions (self st')) \<subseteq> set (positions (self st)) \<union> set (map trade_details
           [\<lparr>ev_date = d, ev_account_value = account_value (manage_positions d 0 st),
               action = ''ENTRY'', trade_details = open_position d trade\<rparr>])"
      using n a c res by simp
    then show ?thesis by blast
  qed
qed

lemma run_backtest_loop_unfold:
  "c \<le> e \<Longrightarrow> run_backtest_loop c e st =
     (case day_step c st of Inl err \<Rightarrow> Inl err | Inr st' \<Rightarrow> run_backtest_loop (c + 1) e st')"
  by (subst run_backtest_loop.simps) simp

lemma run_backtest_loop_done:
  "\<not> c \<le> e \<Longrightarrow> run_backtest_loop c e st = Inr st"
  by (subst run_backtest_loop.simps) simp

section \<open>The example data, evaluated\<close>

lemma add_indicators_prices:
  "add_indicators prices =
     [\<lparr>date = 738522, close = 300, rsi = NaN, sma_20 = NaN, sma_50 = NaN\<rparr>,
      \<lparr>date = 738523, close = 301, rsi = NaN, sma_20 = NaN, sma_50 = NaN\<rparr>,
      \<lparr>date = 738524, close = 302, rsi = NaN, sma_20 = NaN, sma_50 = NaN\<rparr>,
      \<lparr>date = 738525, close = 301, rsi = NaN, sma_20 = NaN, sma_50 = NaN\<rparr>,
      \<lparr>date = 738526, close = 304, rsi = NaN, sma_20 = NaN, sma_50 = NaN\<rparr>,
      \<lparr>date = 738529, close = 305, rsi = NaN, sma_20 = NaN, sma_50 = NaN\<rparr>,
      \<lparr>date = 738530, close = 306, rsi = NaN, sma_20 = NaN, sma_50 = NaN\<rparr>,
      \<lparr>date = 738531, close = 305, rsi = NaN, sma_20 = NaN, sma_50 = NaN\<rparr>,
      \<lparr>date = 738532, close = 308, rsi = NaN, sma_20 = NaN, sma_50 = NaN\<rparr>,
      \<lparr>date = 738533, close = 309, rsi = NaN, sma_20 = NaN, sma_50 = NaN\<rparr>,
      \<lparr>date = 738536, close = 310, rsi = NaN, sma_20 = NaN, sma_50 = NaN\<rparr>,
      \<lparr>date = 738537, close = 309, rsi = NaN, sma_20 = NaN, sma_50 = NaN\<rparr>,
      \<lparr>date = 738538, close = 312, rsi = NaN, sma_20 = NaN, sma_50 = NaN\<rparr>,
      \<lparr>date = 738539, close = 313, rsi = Fin (1600 / 19), sma_20 = NaN, sma_50 = NaN\<rparr>,
      \<lparr>date = 738540, close = 314, rsi = Fin 85, sma_20 = NaN, sma_50 = NaN\<rparr>,
      \<lparr>date = 738543, close = 313, rsi = Fin 80, sma_20 = NaN, sma_50 = NaN\<rparr>,
      \<lparr>date = 738544, close = 316, rsi = Fin (900 / 11), sma_20 = NaN, sma_50 = NaN\<rparr>,
      \<lparr>date = 738545, close = 317, rsi = Fin (950 / 11), sma_20 = NaN, sma_50 = NaN\<rparr>,
      \<lparr>date = 738546, close = 318, rsi = Fin 85, sma_20 = NaN, sma_50 = NaN\<rparr>,
      \<lparr>date = 738547, close = 317, rsi = Fin 80, sma_20 = Fin 309, sma_50 = NaN\<rparr>,
      \<lparr>date = 738550, close = 320, rsi = Fin (900 / 11), sma_20 = Fin 310, sma_50 = NaN\<rparr>,
      \<lparr>date = 738551, close = 321, rsi = Fin (950 / 11), sma_20 = Fin 311, sma_50 = NaN\<rparr>,
      \<lparr>date = 738552, close = 322, rsi = Fin 85, sma_20 = Fin 312, sma_50 = NaN\<rparr>,
      \<lparr>date = 738553, close = 321, rsi = Fin 80, sma_20 = Fin 313, sma_50 = NaN\<rparr>,
      \<lparr>date = 738554, close = 324, rsi = Fin (900 / 11), sma_20 = Fin 314, sma_50 = NaN\<rparr>,
      \<lparr>date = 738557, close = 325, rsi = Fin (950 / 11), sma_20 = Fin 315, sma_50 = NaN\<rparr>,
      \<lparr>date = 738558, close = 326, rsi = Fin 85, sma_20 = Fin 316, sma_50 = NaN\<rparr>,
      \<lparr>date = 738559, close = 325, rsi = Fin 80, sma_20 = Fin 317, sma_50 = NaN\<rparr>,
      \<lparr>date = 738560, close = 328, rsi = Fin (900 / 11), sma_20 = Fin 318, sma_50 = NaN\<rparr>,
      \<lparr>date = 738561, close = 329, rsi = Fin (950 / 11), sma_20 = Fin 319, sma_50 = NaN\<rparr>,
      \<lparr>date = 738564, close = 330, rsi = Fin 85, sma_20 = Fin 320, sma_50 = NaN\<rparr>,
      \<lparr>date = 738565, close = 329, rsi = Fin 80, sma_20 = Fin 321, sma_50 = NaN\<rparr>,
      \<lparr>date = 738566, close = 332, rsi = Fin (900 / 11), sma_20 = Fin 322, sma_50 = NaN\<rparr>,
      \<lparr>date = 738567, close = 333, rsi = Fin (950 / 11), sma_20 = Fin 323, sma_50 = NaN\<rparr>,
      \<lparr>date = 738568, close = 334, rsi = Fin 85, sma_20 = Fin 324, sma_50 = NaN\<rparr>,
      \<lparr>date = 738571, close = 333, rsi = Fin 80, sma_20 = Fin 325, sma_50 = NaN\<rparr>,
      \<lparr>date = 738572, close = 336, rsi = Fin (900 / 11), sma_20 = Fin 326, sma_50 = NaN\<rparr>,
      \<lparr>date = 738573, close = 337, rsi = Fin (950 / 11), sma_20 = Fin 327, sma_50 = NaN\<rparr>,
      \<lparr>date = 738574, close = 338, rsi = Fin 85, sma_20 = Fin 328, sma_50 = NaN\<rparr>,
      \<lparr>date = 738575, close = 337, rsi = Fin 80, sma_20 = Fin 329, sma_50 = NaN\<rparr>,
      \<lparr>date = 738578, close = 340, rsi = Fin (900 / 11), sma_20 = Fin 330, sma_50 = NaN\<rparr>,
      \<lparr>date = 738579, close = 341, rsi = Fin (950 / 11), sma_20 = Fin 331, sma_50 = NaN\<rparr>,
      \<lparr>date = 738580, close = 342, rsi = Fin 85, sma_20 = Fin 332, sma_50 = NaN\<rparr>,
      \<lparr>date = 738581, close = 341, rsi = Fin 80, sma_20 = Fin 333, sma_50 = NaN\<rparr>,
      \<lparr>date = 738582, close = 344, rsi = Fin (900 / 11), sma_20 = Fin 334, sma_50 = NaN\<rparr>,
      \<lparr>date = 738585, close = 345, rsi = Fin (950 / 11), sma_20 = Fin 335, sma_50 = NaN\<rparr>,
      \<lparr>date = 738586, close = 346, rsi = Fin 85, sma_20 = Fin 336, sma_50 = NaN\<rparr>,
      \<lparr>date = 738587, close = 345, rsi = Fin 80, sma_20 = Fin 337, sma_50 = NaN\<rparr>,
      \<lparr>date = 738588, close = 348, rsi = Fin (900 / 11), sma_20 = Fin 338, sma_50 = NaN\<rparr>,
      \<lparr>date = 738589, close = 349, rsi = Fin (950 / 11), sma_20 = Fin 339, sma_50 = Fin (16201 / 50)\<rparr>,
      \<lparr>date = 738592, close = 350, rsi = Fin 85, sma_20 = Fin 340, sma_50 = Fin (16251 / 50)\<rparr>,
      \<lparr>date = 738593, close = 349, rsi = Fin 80, sma_20 = Fin 341, sma_50 = Fin (16299 / 50)\<rparr>,
      \<lparr>date = 738594, close = 349, rsi = Fin (1500 / 19), sma_20 = Fin (6837 / 20), sma_50 = Fin (8173 / 25)\<rparr>,
      \<lparr>date = 738595, close = 349, rsi = Fin (250 / 3), sma_20 = Fin (6853 / 20), sma_50 = Fin (8197 / 25)\<rparr>,
      \<lparr>date = 738596, close = 349, rsi = Fin 80, sma_20 = Fin (1717 / 5), sma_50 = Fin (16439 / 50)\<rparr>,
      \<lparr>date = 738599, close = 349, rsi = Fin (550 / 7), sma_20 = Fin (1721 / 5), sma_50 = Fin (16483 / 50)\<rparr>,
      \<lparr>date = 738600, close = 349, rsi = Fin (1000 / 13), sma_20 = Fin (6897 / 20), sma_50 = Fin (8263 / 25)\<rparr>,
      \<lparr>date = 738601, close = 349, rsi = Fin (250 / 3), sma_20 = Fin (6909 / 20), sma_50 = Fin (1657 / 5)\<rparr>,
      \<lparr>date = 738602, close = 349, rsi = Fin (700 / 9), sma_20 = Fin 346, sma_50 = Fin (16611 / 50)\<rparr>,
      \<lparr>date = 738603, close = 349, rsi = Fin 75, sma_20 = Fin (1733 / 5), sma_50 = Fin (16651 / 50)\<rparr>,
      \<lparr>date = 738606, close = 349, rsi = Fin (500 / 7), sma_20 = Fin (6941 / 20), sma_50 = Fin (1669 / 5)\<rparr>,
      \<lparr>date = 738607, close = 349, rsi = Fin (250 / 3), sma_20 = Fin (6949 / 20), sma_50 = Fin (1673 / 5)\<rparr>,
      \<lparr>date = 738608, close = 349, rsi = Fin (200 / 3), sma_20 = Fin (1739 / 5), sma_50 = Fin (16767 / 50)\<rparr>,
      \<lparr>date = 738609, close = 349, rsi = Fin 50, sma_20 = Fin (1741 / 5), sma_50 = Fin (16803 / 50)\<rparr>,
      \<lparr>date = 738610, close = 349, rsi = Fin 0, sma_20 = Fin (6969 / 20), sma_50 = Fin (8419 / 25)\<rparr>,
      \<lparr>date = 738613, close = 349, rsi = NaN, sma_20 = Fin (6973 / 20), sma_50 = Fin (8437 / 25)\<rparr>]"
  by (simp add: add_indicators_def prices_def trading_day_def diff_def rolling_mean_def
    window_mean_def np_sub_def np_inf_def Let_def upt_rec)

lemma floor_rat_numeral:
  "\<lfloor>(numeral a :: rat) / numeral b\<rfloor> = numeral a div numeral b"
  using floor_divide_of_int_eq [of "numeral a" "numeral b", where ?'a = rat] by simp

lemma ceiling_neg_rat_numeral:
  "\<lceil>- ((numeral a :: rat) / numeral b)\<rceil> = - (numeral a div numeral b)"
  by (simp add: ceiling_def floor_rat_numeral)

lemma example_fields:
  "qqq_data example = add_indicators prices"
  "options_data example = chain" "params example = strategy_params"
  "positions example = []" "trade_history example = []"
  by (simp_all add: example_def init_def)

lemma example_bars:
  "filter (\<lambda>b. date b = 738522) (add_indicators prices) =
     [\<lparr>date = 738522, close = 300, rsi = NaN, sma_20 = NaN, sma_50 = NaN\<rparr>]"
  "filter (\<lambda>b. date b = 738592) (add_indicators prices) =
     [\<lparr>date = 738592, close = 350, rsi = Fin 85, sma_20 = Fin 340, sma_50 = Fin (16251 / 50)\<rparr>]"
  "filter (\<lambda>b. date b = 738593) (add_indicators prices) =
     [\<lparr>date = 738593, close = 349, rsi = Fin 80, sma_20 = Fin 341, sma_50 = Fin (16299 / 50)\<rparr>]"
  "filter (\<lambda>b. date b = 738594) (add_indicators prices) =
     [\<lparr>date = 738594, close = 349, rsi = Fin (1500 / 19), sma_20 = Fin (6837 / 20), sma_50 = Fin (8173 / 25)\<rparr>]"
  "filter (\<lambda>b. date b = 738595) (add_indicators prices) =
     [\<lparr>date = 738595, close = 349, rsi = Fin (250 / 3), sma_20 = Fin (6853 / 20), sma_50 = Fin (8197 / 25)\<rparr>]"
  "filter (\<lambda>b. date b = 738613) (add_indicators prices) =
     [\<lparr>date = 738613, close = 349, rsi = NaN, sma_20 = Fin (6973 / 20), sma_50 = Fin (8437 / 25)\<rparr>]"
  "filter (\<lambda>b. date b = 738614) (add_indicators prices) = []"
  by (simp_all add: add_indicators_prices)

lemmas day_defs = day_step_def manage_positions_unfold manage_positions_done manage_position_def
  find_bull_put_spread_def filter_0dte_options_def calculate_current_value_def
  example_fields example_bars example_position_def example_entry_def
  chain_def put_row_def strategy_params_def weekday_def np_ge_def Let_def
  floor_rat_numeral ceiling_neg_rat_numeral

lemma example_day_1:
  "day_step 738592 \<lparr>self = example, account_value = 100000, results = []\<rparr> =
     Inr \<lparr>self = example\<lparr>positions := [example_position]\<rparr>, account_value = 100000,
          results = [example_entry]\<rparr>"
  by (simp add: day_defs)

lemma example_day_2:
  "day_step 738593 \<lparr>self = example\<lparr>positions := [example_position]\<rparr>, account_value = 100000,
          results = [example_entry]\<rparr> =
     Inr \<lparr>self = example\<lparr>positions := [example_position]\<rparr>, account_value = 100000,
          results = [example_entry]\<rparr>"
  by (simp add: day_defs)

lemma example_day_3:
  "day_step 738594 \<lparr>self = example\<lparr>positions := [example_position]\<rparr>, account_value = 100000,
          results = [example_entry]\<rparr> =
     Inr \<lparr>self = example\<lparr>positions := [example_position]\<rparr>, account_value = 100000,
          results = [example_entry]\<rparr>"
  by (simp add: day_defs)

lemma example_day_4:
  "day_step 738595 \<lparr>self = example\<lparr>positions := [example_position]\<rparr>, account_value = 100000,
          results = [example_entry]\<rparr> =
     Inr \<lparr>self = example\<lparr>positions := [], trade_history := [example_trade]\<rparr>,
          account_value = 100660, results = [example_entry]\<rparr>"
  by (simp add: day_defs example_trade_def)

lemma example_run:
  "run_backtest_loop 738592 738595 \<lparr>self = example, account_value = 100000, results = []\<rparr> =
     Inr \<lparr>self = example\<lparr>positions := [], trade_history := [example_trade]\<rparr>,
          account_value = 100660, results = [example_entry]\<rparr>"
  by (simp add: run_backtest_loop_unfold run_backtest_loop_done
        example_day_1 example_day_2 example_day_3 example_day_4)



section \<open>Trade records held before a run\<close>

lemma prepend_history_fields:
  "qqq_data (self (prepend_history h st)) = qqq_data (self st)"
  "options_data (self (prepend_history h st)) = options_data (self st)"
  "params (self (prepend_history h st)) = params (self st)"
  "positions (self (prepend_history h st)) = positions (self st)"
  "trade_history (self (prepend_history h st)) = h @ trade_history (self st)"
  "account_value (prepend_history h st) = account_value st"
  "results (prepend_history h st) = results st"
  by (simp_all add: prepend_history_def)

lemma filter_0dte_options_prepend:
  "filter_0dte_options (self (prepend_history h st)) d = filter_0dte_options (self st) d"
  by (simp add: filter_0dte_options_def prepend_history_fields)

lemma find_bull_put_spread_prepend:
  "find_bull_put_spread (self (prepend_history h st)) d a = find_bull_put_spread (self st) d a"
  by (simp only: find_bull_put_spread_def filter_0dte_options_prepend prepend_history_fields)

lemma manage_position_prepend:
  "manage_position d p (prepend_history h st) = prepend_history h (manage_position d p st)"
proof (cases "filter_0dte_options (self st) d = []")
  case True
  then show ?thesis
    by (simp add: manage_position_def filter_0dte_options_prepend)
next
  case False
  show ?thesis
  proof (cases "calculate_current_value p (filter_0dte_options (self st) d)")
    case None
    with False show ?thesis
      by (simp add: manage_position_def filter_0dte_options_prepend)
  next
    case (Some cv)
    define pct where "pct = np_div (Fin cv) (Fin (max_risk p))"
    show ?thesis
    proof (cases "np_ge pct (Fin (profit_target_pct (params (self st))))
        \<or> np_le pct (Fin (- stop_loss_pct (params (self st)))) \<or> d = expiry_date p")
      case True
      have l: "manage_position d p (prepend_history h st) =
        (prepend_history h st)\<lparr>account_value := account_value (prepend_history h st) + cv,
           self := (self (prepend_history h st))
             \<lparr>trade_history := trade_history (self (prepend_history h st)) @
                [\<lparr>t_entry_date = entry_date p, exit_date = d, profit_loss = cv, profit_pct = pct\<rparr>],
              positions := remove1 p (positions (self (prepend_history h st)))\<rparr>\<rparr>"
        using False Some True
        by (simp only: manage_position_def Let_def filter_0dte_options_prepend
            prepend_history_fields pct_def option.case if_True if_False)
      have r: "manage_position d p st =
        st\<lparr>account_value := account_value st + cv,
           self := (self st)
             \<lparr>trade_history := trade_history (self st) @
                [\<lparr>t_entry_date = entry_date p, exit_date = d, profit_loss = cv, profit_pct = pct\<rparr>],
              positions := remove1 p (positions (self st))\<rparr>\<rparr>"
        using False Some True
        by (simp only: manage_position_def Let_def pct_def option.case if_True if_False)
      show ?thesis
        unfolding l r by (simp add: prepend_history_def)
    next
      case no: False
      have l: "manage_position d p (prepend_history h st) = prepend_history h st"
        using False Some no
        by (simp only: manage_position_def Let_def filter_0dte_options_prepend
            prepend_history_fields pct_def option.case if_True if_False)
      have r: "manage_position d p st = st"
        using False Some no
        by (simp only: manage_position_def Let_def pct_def option.case if_True if_False)
      show ?thesis unfolding l r ..
    qed
  qed
qed

lemma manage_positions_prepend:
  "manage_positions d i (prepend_history h st) = prepend_history h (manage_positions d i st)"
proof (induction d i st rule: manage_positions.induct)
  case (1 d i st)
  show ?case
  proof (cases "i < length (positions (self st))")
    case True
    then have t: "i < length (positions (self (prepend_history h st)))"
      by (simp add: prepend_history_fields)
    have "manage_positions d i (prepend_history h st) =
        manage_positions d (i + 1)
          (manage_position d (positions (self (prepend_history h st)) ! i) (prepend_history h st))"
      by (rule manage_positions_unfold [OF t])
    also have "\<dots> = manage_positions d (i + 1)
          (prepend_history h (manage_position d (positions (self st) ! i) st))"
      by (simp only: prepend_history_fields manage_position_prepend)
    also have "\<dots> = prepend_history h
          (manage_positions d (i + 1) (manage_position d (positions (self st) ! i) st))"
      by (rule "1.IH" [OF True])
    also have "\<dots> = prepend_history h (manage_positions d i st)"
      by (simp only: manage_positions_unfold [OF True])
    finally show ?thesis .
  next
    case False
    then have f: "\<not> i < length (positions (self (prepend_history h st)))"
      by (simp add: prepend_history_fields)
    show ?thesis
      by (simp only: manage_positions_done [OF f] manage_positions_done [OF False])
  qed
qed

lemma day_step_prepend:
  "day_step d (prepend_history h st) = map_sum id (prepend_history h) (day_step d st)"
proof (cases "weekday d \<ge> 5 \<or> filter (\<lambda>b. date b = d) (qqq_data (self st)) = []")
  case True
  then show ?thesis
    by (auto simp: day_step_def prepend_history_fields)
next
  case False
  define st1 where "st1 = manage_positions d 0 st"
  have m: "manage_positions d 0 (prepend_history h st) = prepend_history h st1"
    unfolding st1_def by (rule manage_positions_prepend)
  show ?thesis
  proof (cases "positions (self st1) = []")
    case nonempty: False
    then show ?thesis
      using False
      by (simp add: day_step_def Let_def m st1_def [symmetric] prepend_history_fields)
  next
    case empty: True
    show ?thesis
    proof (cases "find_bull_put_spread (self st1) d (account_value st1)")
      case (Inl e)
      then show ?thesis
        using False empty
        by (simp add: day_step_def Let_def m st1_def [symmetric] prepend_history_fields
            find_bull_put_spread_prepend)
    next
      case (Inr r)
      show ?thesis
      proof (cases r)
        case None
        then show ?thesis
          using False empty Inr
          by (simp add: day_step_def Let_def m st1_def [symmetric] prepend_history_fields
              find_bull_put_spread_prepend)
      next
        case (Some trade)
        then show ?thesis
          using False empty Inr
          by (simp add: day_step_def Let_def m st1_def [symmetric] prepend_history_fields
              find_bull_put_spread_prepend)
      qed
    qed
  qed
qed

lemma run_backtest_loop_prepend:
  "run_backtest_loop c e (prepend_history h st) =
     map_sum id (prepend_history h) (run_backtest_loop c e st)"
proof (induction c e st rule: run_backtest_loop.induct)
  case (1 c e st)
  show ?case
  proof (cases "c \<le> e")
    case True
    show ?thesis
    proof (cases "day_step c st")
      case (Inl err)
      then show ?thesis
        using True by (simp add: run_backtest_loop_unfold day_step_prepend)
    next
      case (Inr st1)
      then show ?thesis
        using True "1.IH" [OF True Inr]
        by (simp add: run_backtest_loop_unfold day_step_prepend)
    qed
  next
    case False
    then show ?thesis by (simp add: run_backtest_loop_done)
  qed
qed

lemma example_positions_nil: "example\<lparr>positions := []\<rparr> = example"
  by (simp add: example_def init_def)

lemma example_trade_fields:
  "profit_loss example_trade = 660" "profit_pct example_trade = Fin (11 / 7)"
  by (simp_all add: example_trade_def)

lemma example_run_backtest:
  "run_backtest example 738592 738595 100000 =
     Inr (\<lparr>r_results = [example_entry], r_trade_history = [example_trade],
           r_performance = example_performance 1, final_account = 100660\<rparr>,
          example\<lparr>trade_history := [example_trade]\<rparr>)"
  by (simp add: run_backtest_def example_run example_positions_nil example_fields
      example_performance_def example_trade_fields np_mean_def np_sub_def Let_def)

lemma example_second_loop:
  "run_backtest_loop 738592 738595
     \<lparr>self = example\<lparr>trade_history := [example_trade]\<rparr>, account_value = 100000, results = []\<rparr> =
   Inr \<lparr>self = example\<lparr>trade_history := [example_trade, example_trade]\<rparr>,
        account_value = 100660, results = [example_entry]\<rparr>"
  using run_backtest_loop_prepend [of 738592 738595 "[example_trade]"
      "\<lparr>self = example, account_value = 100000, results = []\<rparr>"]
  by (simp add: example_run prepend_history_def example_fields example_positions_nil)

lemma example_second_run_backtest:
  "run_backtest (example\<lparr>trade_history := [example_trade]\<rparr>) 738592 738595 100000 =
     Inr (\<lparr>r_results = [example_entry], r_trade_history = [example_trade, example_trade],
           r_performance = example_performance 2, final_account = 100660\<rparr>,
          example\<lparr>trade_history := [example_trade, example_trade]\<rparr>)"
  by (simp add: run_backtest_def example_second_loop
      example_performance_def example_trade_fields np_mean_def np_sub_def Let_def)

lemma example_two_days:
  "run_backtest_loop 738592 738593 \<lparr>self = example, account_value = 100000, results = []\<rparr> =
     Inr \<lparr>self = example\<lparr>positions := [example_position]\<rparr>, account_value = 100000,
          results = [example_entry]\<rparr>"
  by (simp add: run_backtest_loop_unfold run_backtest_loop_done example_day_1 example_day_2)

section \<open>The properties of the specification\<close>

text \<open>
  C1 does not hold of the code. The example strategy, run from 13 to 14 March 2023 with
  a capital of 100000, opens a position on the 13th that expires that day. The
  position is opened after the day's management loop has run, and on the 14th, where
  neither the profit target nor the stop loss is met, the date is no longer the expiry
  date: the run ends with the position open, no trade record and the account value
  unchanged.
\<close>

theorem expired_position_stays_open:
  "run_backtest example 738592 738593 100000 =
     Inr (\<lparr>r_results = [example_entry], r_trade_history = [],
           r_performance =
             \<lparr>total_return = Fin 0, win_rate = 0, average_return = Fin 0, total_trades = 0\<rparr>,
           final_account = 100000\<rparr>,
          example\<lparr>positions := [example_position]\<rparr>)
   \<and> expiry_date example_position = 738592"
  by (simp add: run_backtest_def example_two_days example_fields)
    (simp add: example_position_def)

text \<open>
  C2. At every day of a run at most one position is open. A run that starts with at
  most one open position (a new strategy object has none) has at most one after the
  loop has processed the days up to any date \<open>d\<close>: the management loop only removes
  positions, and a position is opened only when none is left.
\<close>

theorem at_most_one_open_position:
  assumes "length (positions (self st)) \<le> 1"
    and "run_backtest_loop start_date d st = Inr st'"
  shows "length (positions (self st')) \<le> 1"
  using assms(2) assms(1)
proof (induction start_date d st rule: run_backtest_loop.induct)
  case (1 c e st)
  show ?case
  proof (cases "c \<le> e")
    case True
    show ?thesis
    proof (cases "day_step c st")
      case (Inl err)
      with True "1.prems"(1) show ?thesis by (simp add: run_backtest_loop_unfold)
    next
      case (Inr st1)
      have "run_backtest_loop (c + 1) e st1 = Inr st'"
        using True "1.prems"(1) Inr by (simp add: run_backtest_loop_unfold)
      moreover have "length (positions (self st1)) \<le> 1"
        using day_step_length [OF Inr "1.prems"(2)] .
      ultimately show ?thesis using "1.IH" [OF True Inr] by blast
    qed
  next
    case False
    with "1.prems" show ?thesis by (simp add: run_backtest_loop_done)
  qed
qed

theorem at_most_one_open_position_witness:
  "length (positions (self \<lparr>self = example, account_value = 100000, results = []\<rparr>)) \<le> 1
   \<and> run_backtest_loop 738592 738593 \<lparr>self = example, account_value = 100000, results = []\<rparr> =
       Inr \<lparr>self = example\<lparr>positions := [example_position]\<rparr>, account_value = 100000,
            results = [example_entry]\<rparr>
   \<and> length (positions (self \<lparr>self = example\<lparr>positions := [example_position]\<rparr>,
         account_value = 100000, results = [example_entry]\<rparr>)) \<le> 1"
proof -
  have h1: "length (positions (self \<lparr>self = example, account_value = 100000, results = []\<rparr>)) \<le> 1"
    by (simp add: example_fields)
  have h2: "run_backtest_loop 738592 738593 \<lparr>self = example, account_value = 100000, results = []\<rparr> =
       Inr \<lparr>self = example\<lparr>positions := [example_position]\<rparr>, account_value = 100000,
            results = [example_entry]\<rparr>"
    by (simp add: run_backtest_loop_unfold run_backtest_loop_done example_day_1 example_day_2)
  from at_most_one_open_position [OF h1 h2] h1 h2 show ?thesis by simp
qed

text \<open>
  C3. The sizing scenario. With an account of 100000, a width of 5 and a maximal
  position size of 0.05, on a day that passes the entry gate, when the selected short
  put has the bid 1.20 and the long put found at the strike 5 below has the ask 0.40:
  the net credit is 0.80, \<open>find_bull_put_spread\<close> returns the candidate with a maximal
  risk of 420 and 11 spreads, and the day opens the position with the initial credit
  880 (on a weekday with no position open).
\<close>

theorem scenario_sizing:
  assumes "positions (self st) = []" and "account_value st = 100000" and "weekday d < 5"
    and "filter (\<lambda>b. date b = d) (qqq_data (self st)) = current_data # bs"
    and "\<not> np_lt (rsi current_data) (Fin (entry_rsi_threshold (params (self st))))"
    and "\<not> np_lt (sma_20 current_data) (sma_50 current_data)"
    and "filter (\<lambda>q. - (7 / 20) \<le> delta q \<and> delta q \<le> - (1 / 4))
           (filter (\<lambda>q. option_type q = ''put'') (filter_0dte_options (self st) d)) = sp # sps"
    and "filter (\<lambda>q. strike q = strike sp - 5)
           (filter (\<lambda>q. option_type q = ''put'') (filter_0dte_options (self st) d)) = lp # lps"
    and "width_between_strikes (params (self st)) = 5"
    and "max_position_size (params (self st)) = 1 / 20"
    and "bid sp = 6 / 5" and "ask lp = 2 / 5"
  shows "bid sp - ask lp = 4 / 5
    \<and> find_bull_put_spread (self st) d 100000 =
        Inr (Some \<lparr>c_short_put = sp, c_long_put = lp, c_num_spreads = 11,
                   c_max_risk = 420, c_max_profit = 880\<rparr>)
    \<and> day_step d st =
        Inr (st\<lparr>self := (self st)\<lparr>positions :=
                  [\<lparr>entry_date = d, expiry_date = d, short_put = sp, long_put = lp,
                    num_spreads = 11, initial_credit = 880, max_risk = 420\<rparr>]\<rparr>,
                results := results st @
                  [\<lparr>ev_date = d, ev_account_value = 100000, action = ''ENTRY'',
                    trade_details =
                      \<lparr>entry_date = d, expiry_date = d, short_put = sp, long_put = lp,
                       num_spreads = 11, initial_credit = 880, max_risk = 420\<rparr>\<rparr>]\<rparr>)"
proof -
  have credit: "bid sp - ask lp = 4 / 5"
    using assms(11,12) by simp
  have nonempty: "filter_0dte_options (self st) d \<noteq> []"
    using assms(7) by auto
  have found: "find_bull_put_spread (self st) d 100000 =
        Inr (Some \<lparr>c_short_put = sp, c_long_put = lp, c_num_spreads = 11,
                   c_max_risk = 420, c_max_profit = 880\<rparr>)"
    by (simp add: find_bull_put_spread_def Let_def assms(4-12) nonempty floor_rat_numeral
        del: filter_filter)
  have all: "manage_positions d 0 st = st"
    by (rule manage_positions_done) (simp add: assms(1))
  have wd: "\<not> 5 \<le> weekday d"
    using assms(3) by simp
  have "day_step d st =
        Inr (st\<lparr>self := (self st)\<lparr>positions :=
                  [\<lparr>entry_date = d, expiry_date = d, short_put = sp, long_put = lp,
                    num_spreads = 11, initial_credit = 880, max_risk = 420\<rparr>]\<rparr>,
                results := results st @
                  [\<lparr>ev_date = d, ev_account_value = 100000, action = ''ENTRY'',
                    trade_details =
                      \<lparr>entry_date = d, expiry_date = d, short_put = sp, long_put = lp,
                       num_spreads = 11, initial_credit = 880, max_risk = 420\<rparr>\<rparr>]\<rparr>)"
    by (simp add: day_step_def Let_def all wd assms(1,2,4,11,12) found)
  with credit found show ?thesis by simp
qed

theorem scenario_sizing_witness:
  "positions (self \<lparr>self = example, account_value = 100000, results = []\<rparr>) = []
   \<and> weekday 738592 < 5
   \<and> filter (\<lambda>q. - (7 / 20) \<le> delta q \<and> delta q \<le> - (1 / 4))
        (filter (\<lambda>q. option_type q = ''put'') (filter_0dte_options example 738592)) =
       [put_row 738592 350 (6 / 5) (13 / 10) (- (3 / 10))]
   \<and> filter (\<lambda>q. strike q = strike (put_row 738592 350 (6 / 5) (13 / 10) (- (3 / 10))) - 5)
        (filter (\<lambda>q. option_type q = ''put'') (filter_0dte_options example 738592)) =
       [put_row 738592 345 (7 / 20) (2 / 5) (- (3 / 20))]
   \<and> find_bull_put_spread example 738592 100000 =
       Inr (Some \<lparr>c_short_put = put_row 738592 350 (6 / 5) (13 / 10) (- (3 / 10)),
                  c_long_put = put_row 738592 345 (7 / 20) (2 / 5) (- (3 / 20)),
                  c_num_spreads = 11, c_max_risk = 420, c_max_profit = 880\<rparr>)
   \<and> day_step 738592 \<lparr>self = example, account_value = 100000, results = []\<rparr> =
       Inr \<lparr>self = example\<lparr>positions := [example_position]\<rparr>, account_value = 100000,
            results = [example_entry]\<rparr>"
proof -
  let ?st = "\<lparr>self = example, account_value = 100000, results = []\<rparr>"
  let ?sp = "put_row 738592 350 (6 / 5) (13 / 10) (- (3 / 10))"
  let ?lp = "put_row 738592 345 (7 / 20) (2 / 5) (- (3 / 20))"
  let ?bar = "\<lparr>date = 738592, close = 350, rsi = Fin 85, sma_20 = Fin 340, sma_50 = Fin (16251 / 50)\<rparr>"
  have h1: "positions (self ?st) = []" by (simp add: example_fields)
  have h2: "account_value ?st = 100000" by simp
  have h3: "weekday 738592 < 5" by (simp add: weekday_def)
  have h4: "filter (\<lambda>b. date b = 738592) (qqq_data (self ?st)) = ?bar # []"
    by (simp add: example_fields example_bars)
  have h5: "\<not> np_lt (rsi ?bar) (Fin (entry_rsi_threshold (params (self ?st))))"
    by (simp add: example_fields strategy_params_def)
  have h6: "\<not> np_lt (sma_20 ?bar) (sma_50 ?bar)" by simp
  have h7: "filter (\<lambda>q. - (7 / 20) \<le> delta q \<and> delta q \<le> - (1 / 4))
           (filter (\<lambda>q. option_type q = ''put'') (filter_0dte_options (self ?st) 738592)) = ?sp # []"
    by (simp add: filter_0dte_options_def example_fields chain_def put_row_def)
  have h8: "filter (\<lambda>q. strike q = strike ?sp - 5)
           (filter (\<lambda>q. option_type q = ''put'') (filter_0dte_options (self ?st) 738592)) = ?lp # []"
    by (simp add: filter_0dte_options_def example_fields chain_def put_row_def)
  have h9: "width_between_strikes (params (self ?st)) = 5"
    by (simp add: example_fields strategy_params_def)
  have h10: "max_position_size (params (self ?st)) = 1 / 20"
    by (simp add: example_fields strategy_params_def)
  have h11: "bid ?sp = 6 / 5" by (simp add: put_row_def)
  have h12: "ask ?lp = 2 / 5" by (simp add: put_row_def)
  from scenario_sizing [OF h1 h2 h3 h4 h5 h6 h7 h8 h9 h10 h11 h12] h1 h3 h7 h8
  show ?thesis by (simp add: example_position_def example_entry_def)
qed




text \<open>
  C5 does not hold of the code. On 3 April 2023 the last fifteen closes of the example
  are equal, the average gain and loss are both zero and the RSI is not-a-number; on
  2 January 2023, the first bar, no window is full and all three indicators are
  not-a-number. The entry test rejects when the RSI is below the threshold, which
  not-a-number is not, and \<open>find_bull_put_spread\<close> returns a candidate on both days.
\<close>

theorem undefined_rsi_opens_trade:
  "filter (\<lambda>b. date b = 738613) (qqq_data example) =
     [\<lparr>date = 738613, close = 349, rsi = NaN, sma_20 = Fin (6973 / 20), sma_50 = Fin (8437 / 25)\<rparr>]
   \<and> find_bull_put_spread example 738613 100000 =
     Inr (Some \<lparr>c_short_put = put_row 738613 350 (6 / 5) (13 / 10) (- (3 / 10)),
                c_long_put = put_row 738613 345 (7 / 20) (2 / 5) (- (3 / 20)),
                c_num_spreads = 11, c_max_risk = 420, c_max_profit = 880\<rparr>)
   \<and> filter (\<lambda>b. date b = 738522) (qqq_data example) =
     [\<lparr>date = 738522, close = 300, rsi = NaN, sma_20 = NaN, sma_50 = NaN\<rparr>]
   \<and> find_bull_put_spread example 738522 100000 =
     Inr (Some \<lparr>c_short_put = put_row 738522 350 (6 / 5) (13 / 10) (- (3 / 10)),
                c_long_put = put_row 738522 345 (7 / 20) (2 / 5) (- (3 / 20)),
                c_num_spreads = 11, c_max_risk = 420, c_max_profit = 880\<rparr>)"
  by (simp add: find_bull_put_spread_def filter_0dte_options_def example_fields example_bars
      chain_def put_row_def strategy_params_def Let_def floor_rat_numeral)

text \<open>
  C6, as stated, fails: for a date without a price bar \<open>find_bull_put_spread\<close> raises
  IndexError, here on 4 April 2023, the day after the last bar.
\<close>

theorem find_bull_put_spread_absent_bar:
  "find_bull_put_spread example 738614 100000 = Inl IndexError"
  by (simp add: find_bull_put_spread_def example_fields example_bars)

text \<open>
  C6, amended. For a date with no matching price bar \<open>find_bull_put_spread\<close> raises
  IndexError; the backtest never calls it on such a date, since the day's pass through
  the loop finds the day's data empty first and leaves the state as it is.
\<close>

theorem absent_bar_raises_and_run_skips:
  assumes "filter (\<lambda>b. date b = d) (qqq_data (self st)) = []"
  shows "find_bull_put_spread (self st) d a = Inl IndexError \<and> day_step d st = Inr st"
  using assms by (simp add: find_bull_put_spread_def day_step_def)

theorem absent_bar_raises_and_run_skips_witness:
  "filter (\<lambda>b. date b = 738614)
     (qqq_data (self \<lparr>self = example, account_value = 100000, results = []\<rparr>)) = []
   \<and> find_bull_put_spread example 738614 100000 = Inl IndexError
   \<and> day_step 738614 \<lparr>self = example, account_value = 100000, results = []\<rparr> =
       Inr \<lparr>self = example, account_value = 100000, results = []\<rparr>"
proof -
  have h: "filter (\<lambda>b. date b = 738614)
     (qqq_data (self \<lparr>self = example, account_value = 100000, results = []\<rparr>)) = []"
    by (simp add: example_fields example_bars)
  from absent_bar_raises_and_run_skips [OF h, of 100000] h show ?thesis by simp
qed

text \<open>
  C7. When a leg of the open position has no put quote at its strike among the day's
  same-day options, \<open>calculate_current_value\<close> returns \<open>None\<close>, the management of that
  position changes nothing, and the whole day leaves the state as it was: the position
  stays open, the account value and the trade history are unchanged.
\<close>

theorem missing_leg_skips_management:
  assumes "positions (self st) = [p]"
    and "filter (\<lambda>q. strike q = strike (short_put p) \<and> option_type q = ''put'')
           (filter_0dte_options (self st) d) = []
         \<or> filter (\<lambda>q. strike q = strike (long_put p) \<and> option_type q = ''put'')
           (filter_0dte_options (self st) d) = []"
  shows "calculate_current_value p (filter_0dte_options (self st) d) = None
     \<and> manage_position d p st = st \<and> day_step d st = Inr st"
proof -
  have none: "calculate_current_value p (filter_0dte_options (self st) d) = None"
    using assms(2) by (auto simp: calculate_current_value_def Let_def split: list.splits)
  then have one: "manage_position d p st = st"
    by (simp add: manage_position_def Let_def)
  have "manage_positions d 0 st = manage_positions d (0 + 1) (manage_position d (positions (self st) ! 0) st)"
    by (rule manage_positions_unfold) (simp add: assms(1))
  also have "\<dots> = manage_positions d 1 st"
    using one by (simp add: assms(1))
  also have "\<dots> = st"
    by (rule manage_positions_done) (simp add: assms(1))
  finally have all: "manage_positions d 0 st = st" .
  have "day_step d st = Inr st"
    by (simp add: day_step_def all assms(1))
  with none one show ?thesis by simp
qed

theorem missing_leg_skips_management_witness:
  "positions (self \<lparr>self = example\<lparr>positions := [example_position]\<rparr>, account_value = 100000,
       results = [example_entry]\<rparr>) = [example_position]
   \<and> filter_0dte_options (example\<lparr>positions := [example_position]\<rparr>) 738594 =
       [put_row 738594 350 1 (11 / 10) (- (7 / 25))]
   \<and> filter (\<lambda>q. strike q = strike (long_put example_position) \<and> option_type q = ''put'')
        (filter_0dte_options (example\<lparr>positions := [example_position]\<rparr>) 738594) = []
   \<and> calculate_current_value example_position
        (filter_0dte_options (example\<lparr>positions := [example_position]\<rparr>) 738594) = None
   \<and> day_step 738594 \<lparr>self = example\<lparr>positions := [example_position]\<rparr>, account_value = 100000,
        results = [example_entry]\<rparr> =
       Inr \<lparr>self = example\<lparr>positions := [example_position]\<rparr>, account_value = 100000,
            results = [example_entry]\<rparr>"
proof -
  let ?st = "\<lparr>self = example\<lparr>positions := [example_position]\<rparr>, account_value = 100000,
       results = [example_entry]\<rparr>"
  have h1: "positions (self ?st) = [example_position]" by simp
  have opts: "filter_0dte_options (self ?st) 738594 = [put_row 738594 350 1 (11 / 10) (- (7 / 25))]"
    by (simp add: filter_0dte_options_def example_fields chain_def put_row_def)
  have leg: "filter (\<lambda>q. strike q = strike (long_put example_position) \<and> option_type q = ''put'')
        (filter_0dte_options (self ?st) 738594) = []"
    by (subst opts) (simp add: example_position_def put_row_def)
  then have h2: "filter (\<lambda>q. strike q = strike (short_put example_position) \<and> option_type q = ''put'')
           (filter_0dte_options (self ?st) 738594) = []
         \<or> filter (\<lambda>q. strike q = strike (long_put example_position) \<and> option_type q = ''put'')
           (filter_0dte_options (self ?st) 738594) = []"
    by (rule disjI2)
  from missing_leg_skips_management [OF h1 h2] h1 opts leg show ?thesis by simp
qed

text \<open>
  C8, as stated, fails: the trade history and the open positions are attributes of the
  strategy object and outlive a run. Run twice on the same object with the same dates
  and capital, the example returns one trade record the first time and two the second.
\<close>

theorem second_run_differs:
  "run_backtest example 738592 738595 100000 =
     Inr (\<lparr>r_results = [example_entry], r_trade_history = [example_trade],
           r_performance = example_performance 1, final_account = 100660\<rparr>,
          example\<lparr>trade_history := [example_trade]\<rparr>)
   \<and> run_backtest (example\<lparr>trade_history := [example_trade]\<rparr>) 738592 738595 100000 =
     Inr (\<lparr>r_results = [example_entry], r_trade_history = [example_trade, example_trade],
           r_performance = example_performance 2, final_account = 100660\<rparr>,
          example\<lparr>trade_history := [example_trade, example_trade]\<rparr>)
   \<and> [example_trade] \<noteq> [example_trade, example_trade]"
  by (simp add: example_run_backtest example_second_run_backtest)

text \<open>
  C8, amended. The result of \<open>run_backtest\<close> is a function of its arguments and of the
  positions and the trade history the strategy object holds when it is called. The
  trade history it holds is returned first, followed by exactly the records that the
  same run returns from an empty trade history, with the same events, final account
  value and open positions; so a run on an object without earlier records (a new
  object, for one) returns the records of that run alone.
\<close>

theorem run_extends_prior_history:
  assumes "run_backtest self0 start_date end_date initial_capital = Inr (r, self1)"
  shows "\<exists>r0 self2.
      run_backtest (self0\<lparr>trade_history := []\<rparr>) start_date end_date initial_capital = Inr (r0, self2)
      \<and> r_trade_history r = trade_history self0 @ r_trade_history r0
      \<and> r_results r = r_results r0
      \<and> final_account r = final_account r0
      \<and> positions self1 = positions self2
      \<and> trade_history self1 = trade_history self0 @ trade_history self2"
proof -
  define h where "h = trade_history self0"
  define st0 where "st0 = \<lparr>self = self0\<lparr>trade_history := []\<rparr>, account_value = initial_capital,
    results = []\<rparr>"
  have init: "\<lparr>self = self0, account_value = initial_capital, results = []\<rparr> = prepend_history h st0"
    by (simp add: prepend_history_def st0_def h_def)
  have loop: "run_backtest_loop start_date end_date \<lparr>self = self0, account_value = initial_capital, results = []\<rparr>
      = map_sum id (prepend_history h) (run_backtest_loop start_date end_date st0)"
    unfolding init by (rule run_backtest_loop_prepend)
  show ?thesis
  proof (cases "run_backtest_loop start_date end_date st0")
    case (Inl e)
    with loop assms show ?thesis by (simp add: run_backtest_def)
  next
    case (Inr st)
    have full: "run_backtest_loop start_date end_date \<lparr>self = self0, account_value = initial_capital, results = []\<rparr>
      = Inr (prepend_history h st)"
      using loop Inr by simp
    define r0 where "r0 =
      \<lparr>r_results = results st, r_trade_history = trade_history (self st),
       r_performance =
         (if trade_history (self st) \<noteq> [] then
            \<lparr>total_return =
               np_mul (np_sub (np_div (Fin (account_value st)) (Fin initial_capital)) (Fin 1)) (Fin 100),
             win_rate = (if length (trade_history (self st)) > 0
                 then of_nat (length (filter (\<lambda>t. profit_loss t > 0) (trade_history (self st))))
                      / of_nat (length (trade_history (self st))) else 0) * 100,
             average_return = np_mul (if trade_history (self st) \<noteq> []
                 then np_mean (map profit_pct (trade_history (self st))) else Fin 0) (Fin 100),
             total_trades = length (trade_history (self st))\<rparr>
          else \<lparr>total_return = Fin 0, win_rate = 0, average_return = Fin 0, total_trades = 0\<rparr>),
       final_account = account_value st\<rparr>"
    have fresh: "run_backtest (self0\<lparr>trade_history := []\<rparr>) start_date end_date initial_capital
        = Inr (r0, self st)"
      using Inr by (simp add: run_backtest_def st0_def [symmetric] r0_def Let_def)
    have r: "r_trade_history r = h @ trade_history (self st) \<and> r_results r = results st
        \<and> final_account r = account_value st \<and> self1 = self (prepend_history h st)"
      using assms full
      by (auto simp: run_backtest_def Let_def prepend_history_fields split: if_splits)
    have "r_trade_history r = trade_history self0 @ r_trade_history r0
      \<and> r_results r = r_results r0
      \<and> final_account r = final_account r0
      \<and> positions self1 = positions (self st)
      \<and> trade_history self1 = trade_history self0 @ trade_history (self st)"
      using r by (simp add: r0_def h_def prepend_history_fields)
    with fresh show ?thesis by blast
  qed
qed

theorem run_extends_prior_history_witness:
  "run_backtest (example\<lparr>trade_history := [example_trade]\<rparr>) 738592 738595 100000 =
     Inr (\<lparr>r_results = [example_entry], r_trade_history = [example_trade, example_trade],
           r_performance = example_performance 2, final_account = 100660\<rparr>,
          example\<lparr>trade_history := [example_trade, example_trade]\<rparr>)
   \<and> (\<exists>r0 self2.
      run_backtest (example\<lparr>trade_history := [example_trade]\<rparr>\<lparr>trade_history := []\<rparr>)
        738592 738595 100000 = Inr (r0, self2)
      \<and> [example_trade, example_trade] = [example_trade] @ r_trade_history r0
      \<and> [example_entry] = r_results r0
      \<and> (100660 :: rat) = final_account r0)"
  using run_extends_prior_history [OF example_second_run_backtest] example_second_run_backtest
  by (simp add: example_fields) blast

text \<open>
  C9. Given an API key and a response to the request, \<open>get_intraday_data\<close> raises when
  the status code is not 200 (so for every status that is not a success), when the
  decoded payload contains \<open>Error Message\<close>, and when it lacks the key
  \<open>Time Series (<interval>)\<close>; and whenever it returns a frame, the status code is 200,
  the payload reports no error and holds that key, and the frame is the conversion of
  the time series under it.
\<close>

theorem get_intraday_data_failures:
  assumes "api_key = Some key"
    and "http_get ''https://www.alphavantage.co/query''
           [(''function'', ''TIME_SERIES_INTRADAY''), (''symbol'', symbol),
            (''interval'', interval), (''apikey'', key),
            (''outputsize'', output_size), (''datatype'', ''json'')] = Inr resp"
  shows "(status_code resp \<noteq> 200
          \<or> (\<exists>data. json resp = Inr data
                \<and> (py_in ''Error Message'' data = Inr True
                    \<or> py_in (''Time Series ('' @ interval @ '')'') data = Inr False))
         \<longrightarrow> (\<exists>e. get_intraday_data http_get to_frame symbol interval api_key output_size = Inl e))
    \<and> (\<forall>df. get_intraday_data http_get to_frame symbol interval api_key output_size = Inr df
         \<longrightarrow> status_code resp = 200
           \<and> (\<exists>data time_series. json resp = Inr data
                \<and> py_in ''Error Message'' data = Inr False
                \<and> py_in (''Time Series ('' @ interval @ '')'') data = Inr True
                \<and> py_getitem data (''Time Series ('' @ interval @ '')'') = Inr time_series
                \<and> to_frame time_series symbol = Inr df))"
proof -
  define tkey where "tkey = ''Time Series ('' @ interval @ '')''"
  define result where
    "result = get_intraday_data http_get to_frame symbol interval api_key output_size"
  have unfolded: "result =
    (if status_code resp \<noteq> 200 then Inl (Exception ''API request failed with status code'')
     else
       (case json resp of
          Inl e \<Rightarrow> Inl e
        | Inr data \<Rightarrow>
            (case py_in ''Error Message'' data of
               Inl e \<Rightarrow> Inl e
             | Inr True \<Rightarrow> Inl (Exception ''API returned an error'')
             | Inr False \<Rightarrow>
                 (case py_in tkey data of
                    Inl e \<Rightarrow> Inl e
                  | Inr False \<Rightarrow> Inl (Exception ''Expected key not found in response'')
                  | Inr True \<Rightarrow>
                      (case py_getitem data tkey of
                         Inl e \<Rightarrow> Inl e
                       | Inr time_series \<Rightarrow> to_frame time_series symbol)))))"
    by (simp only: result_def get_intraday_data_def assms option.case Let_def sum.case tkey_def)
  have fails: "\<exists>e. result = Inl e"
    if "status_code resp \<noteq> 200
        \<or> (\<exists>data. json resp = Inr data
              \<and> (py_in ''Error Message'' data = Inr True \<or> py_in tkey data = Inr False))"
  proof (cases "status_code resp \<noteq> 200")
    case True
    then show ?thesis by (simp add: unfolded)
  next
    case False
    with that obtain data where data: "json resp = Inr data"
      and bad: "py_in ''Error Message'' data = Inr True \<or> py_in tkey data = Inr False"
      by blast
    show ?thesis
    proof (cases "py_in ''Error Message'' data = Inr True")
      case True
      with False data show ?thesis by (simp add: unfolded)
    next
      case no_error: False
      with bad have missing: "py_in tkey data = Inr False" by simp
      show ?thesis
      proof (cases "py_in ''Error Message'' data")
        case (Inl e)
        with False data show ?thesis by (simp add: unfolded)
      next
        case (Inr b)
        with no_error have "b = False" by simp
        with False data Inr missing show ?thesis by (simp add: unfolded)
      qed
    qed
  qed
  have returns: "status_code resp = 200
      \<and> (\<exists>data time_series. json resp = Inr data
            \<and> py_in ''Error Message'' data = Inr False
            \<and> py_in tkey data = Inr True
            \<and> py_getitem data tkey = Inr time_series
            \<and> to_frame time_series symbol = Inr df)"
    if ok: "result = Inr df" for df
  proof -
    have status: "status_code resp = 200"
      using ok by (cases "status_code resp = 200") (simp_all add: unfolded)
    obtain data where data: "json resp = Inr data"
      using ok status by (cases "json resp") (simp_all add: unfolded)
    have no_error: "py_in ''Error Message'' data = Inr False"
    proof (cases "py_in ''Error Message'' data")
      case (Inl e)
      with ok status data show ?thesis by (simp add: unfolded)
    next
      case (Inr b)
      with ok status data show ?thesis by (cases b) (simp_all add: unfolded)
    qed
    have present: "py_in tkey data = Inr True"
    proof (cases "py_in tkey data")
      case (Inl e)
      with ok status data no_error show ?thesis by (simp add: unfolded)
    next
      case (Inr b)
      with ok status data no_error show ?thesis by (cases b) (simp_all add: unfolded)
    qed
    obtain time_series where series: "py_getitem data tkey = Inr time_series"
      using ok status data no_error present
      by (cases "py_getitem data tkey") (simp_all add: unfolded)
    have "to_frame time_series symbol = Inr df"
      using ok status data no_error present series by (simp add: unfolded)
    with status data no_error present series show ?thesis by blast
  qed
  show ?thesis
    using fails returns unfolding result_def tkey_def by blast
qed

theorem get_intraday_data_failures_witness:
  "py_in ''Error Message'' (JObj [(''Error Message'', JStr ''Invalid API call.'')]) = Inr True
   \<and> (\<exists>e. get_intraday_data (\<lambda>url query. Inr error_response) (\<lambda>ts sym. Inr ts)
         ''QQQ'' ''1min'' (Some ''KEY'') ''full'' = Inl e)
   \<and> get_intraday_data (\<lambda>url query. Inr good_response) (\<lambda>ts sym. Inr ts)
       ''QQQ'' ''1min'' (Some ''KEY'') ''full'' =
       Inr (JObj [(''2023-03-13 09:30:00'', JObj [(''4. close'', JStr ''350.0'')])])
   \<and> status_code good_response = 200"
proof -
  have k: "Some ''KEY'' = Some ''KEY''" ..
  have e: "(\<lambda>url query. Inr error_response) ''https://www.alphavantage.co/query''
           [(''function'', ''TIME_SERIES_INTRADAY''), (''symbol'', ''QQQ''),
            (''interval'', ''1min''), (''apikey'', ''KEY''),
            (''outputsize'', ''full''), (''datatype'', ''json'')] = Inr error_response"
    by simp
  have g: "(\<lambda>url query. Inr good_response) ''https://www.alphavantage.co/query''
           [(''function'', ''TIME_SERIES_INTRADAY''), (''symbol'', ''QQQ''),
            (''interval'', ''1min''), (''apikey'', ''KEY''),
            (''outputsize'', ''full''), (''datatype'', ''json'')] = Inr good_response"
    by simp
  have reported: "py_in ''Error Message'' (JObj [(''Error Message'', JStr ''Invalid API call.'')]) = Inr True"
    by simp
  then have ante: "status_code error_response \<noteq> 200
      \<or> (\<exists>data. json error_response = Inr data
            \<and> (py_in ''Error Message'' data = Inr True
                \<or> py_in (''Time Series ('' @ ''1min'' @ '')'') data = Inr False))"
    by (simp add: error_response_def)
  have raised: "\<exists>e. get_intraday_data (\<lambda>url query. Inr error_response) (\<lambda>ts sym. Inr ts)
         ''QQQ'' ''1min'' (Some ''KEY'') ''full'' = Inl e"
    using get_intraday_data_failures [OF k e, where to_frame = "\<lambda>ts sym. Inr ts", THEN conjunct1]
      ante by (rule mp)
  have good: "get_intraday_data (\<lambda>url query. Inr good_response) (\<lambda>ts sym. Inr ts)
       ''QQQ'' ''1min'' (Some ''KEY'') ''full'' =
       Inr (JObj [(''2023-03-13 09:30:00'', JObj [(''4. close'', JStr ''350.0'')])])"
    by (simp add: get_intraday_data_def good_response_def)
  have "status_code good_response = 200
      \<and> (\<exists>data time_series. json good_response = Inr data
            \<and> py_in ''Error Message'' data = Inr False
            \<and> py_in (''Time Series ('' @ ''1min'' @ '')'') data = Inr True
            \<and> py_getitem data (''Time Series ('' @ ''1min'' @ '')'') = Inr time_series
            \<and> (\<lambda>ts sym. Inr ts) time_series ''QQQ'' =
                (Inr (JObj [(''2023-03-13 09:30:00'', JObj [(''4. close'', JStr ''350.0'')])])
                  :: error + json_value))"
    using get_intraday_data_failures [OF k g, where to_frame = "\<lambda>ts sym. Inr ts",
        THEN conjunct2, THEN spec] good by (rule mp)
  then have status: "status_code good_response = 200" by (rule conjunct1)
  from reported raised good status show ?thesis by (intro conjI)
qed

text \<open>
  C10. During a run the account value changes only when a position is closed, and then
  by exactly the value computed for that position. After any run of the loop the trade
  history is the former one followed by new records and the event list the former one
  followed by new entry events; the account value is the former one plus the sum of
  the profits and losses of the new records; and every new record is the close of a
  position that was open at the start or was entered during the run, with the value
  \<open>calculate_current_value\<close> gives that position on the exit date. An entry appends
  an event and no record, so it leaves the account value as it is.
\<close>

theorem account_changes_only_at_close:
  assumes "run_backtest_loop start_date end_date st = Inr st'"
  shows "\<exists>new evs. trade_history (self st') = trade_history (self st) @ new
     \<and> results st' = results st @ evs
     \<and> account_value st' = account_value st + sum_list (map profit_loss new)
     \<and> records_of_closes (self st) (set (positions (self st)) \<union> set (map trade_details evs)) new"
  using assms
proof (induction start_date end_date st rule: run_backtest_loop.induct)
  case (1 c e st)
  show ?case
  proof (cases "c \<le> e")
    case True
    show ?thesis
    proof (cases "day_step c st")
      case (Inl err)
      with True "1.prems" show ?thesis by (simp add: run_backtest_loop_unfold)
    next
      case (Inr st1)
      have r: "run_backtest_loop (c + 1) e st1 = Inr st'"
        using True "1.prems" Inr by (simp add: run_backtest_loop_unfold)
      from day_step_closes [OF Inr]
      obtain new1 evs1 where n1: "trade_history (self st1) = trade_history (self st) @ new1"
        and e1: "results st1 = results st @ evs1"
        and a1: "account_value st1 = account_value st + sum_list (map profit_loss new1)"
        and c1: "records_of_closes (self st) (set (positions (self st))) new1"
        and p1: "set (positions (self st1)) \<subseteq> set (positions (self st)) \<union> set (map trade_details evs1)"
        by (elim exE conjE)
      from "1.IH" [OF True Inr r]
      obtain new2 evs2 where n2: "trade_history (self st') = trade_history (self st1) @ new2"
        and e2: "results st' = results st1 @ evs2"
        and a2: "account_value st' = account_value st1 + sum_list (map profit_loss new2)"
        and c2: "records_of_closes (self st1)
                   (set (positions (self st1)) \<union> set (map trade_details evs2)) new2"
        by (elim exE conjE)
      let ?known = "set (positions (self st)) \<union> set (map trade_details (evs1 @ evs2))"
      have "options_data (self st1) = options_data (self st)"
        using day_step_static [OF Inr] by blast
      then have "records_of_closes (self st)
          (set (positions (self st1)) \<union> set (map trade_details evs2)) new2"
        using c2 records_of_closes_static by blast
      moreover have "set (positions (self st1)) \<union> set (map trade_details evs2) \<subseteq> ?known"
        using p1 by auto
      ultimately have c2': "records_of_closes (self st) ?known new2"
        by (rule records_of_closes_mono)
      have "set (positions (self st)) \<subseteq> ?known" by simp
      with c1 have c1': "records_of_closes (self st) ?known new1"
        by (rule records_of_closes_mono)
      have "trade_history (self st') = trade_history (self st) @ (new1 @ new2)"
        by (simp only: n2 n1 append_assoc)
      moreover have "results st' = results st @ (evs1 @ evs2)"
        by (simp only: e2 e1 append_assoc)
      moreover have "account_value st' = account_value st + sum_list (map profit_loss (new1 @ new2))"
        by (simp only: a2 a1 map_append sum_list_append add.assoc)
      moreover have "records_of_closes (self st) ?known (new1 @ new2)"
        using c1' c2' by (rule records_of_closes_append)
      ultimately show ?thesis by blast
    qed
  next
    case False
    with "1.prems" have "st' = st" by (simp add: run_backtest_loop_done)
    then have "trade_history (self st') = trade_history (self st) @ []
      \<and> results st' = results st @ []
      \<and> account_value st' = account_value st + sum_list (map profit_loss [])
      \<and> records_of_closes (self st) (set (positions (self st)) \<union> set (map trade_details [])) []"
      by (simp add: records_of_closes_Nil)
    then show ?thesis by blast
  qed
qed

theorem account_changes_only_at_close_witness:
  "run_backtest_loop 738592 738595 \<lparr>self = example, account_value = 100000, results = []\<rparr> =
     Inr \<lparr>self = example\<lparr>positions := [], trade_history := [example_trade]\<rparr>,
          account_value = 100660, results = [example_entry]\<rparr>
   \<and> (\<exists>new evs. [example_trade] = [] @ new \<and> [example_entry] = [] @ evs
        \<and> (100660 :: rat) = 100000 + sum_list (map profit_loss new)
        \<and> records_of_closes example (set [] \<union> set (map trade_details evs)) new)"
  using account_changes_only_at_close [OF example_run] example_run
  by (simp add: example_fields)

end
